theory Spec2Isabelle
  imports Main
begin

section \<open>Definitions: the launcher (src/targets/node/nodeLauncherBase.ts)\<close>

subsection \<open>Values shared by the components\<close>

text \<open>
  Identifiers are JavaScript strings; an opener id is \<open>string | undefined\<close>. Conditions
  such as \<open>livingOpenerId && ...\<close> test for truthiness, so \<open>undefined\<close> and the empty
  string are both false.
\<close>

definition truthy :: "string option \<Rightarrow> bool" where
  "truthy v = (case v of None \<Rightarrow> False | Some s \<Rightarrow> s \<noteq> [])"

text \<open>\<open>s.includes(' ')\<close>\<close>

definition includesSpace :: "string \<Rightarrow> bool" where
  "includesSpace s = (CHR '' '' \<in> set s)"

text \<open>
  Modelled from the spec: the \<open>Semver\<close> class (common/semver.ts is not among the sources):
  three numeric components compared in order.
\<close>

record semver =
  major :: nat
  minor :: nat
  patch :: nat

definition Semver :: "nat \<Rightarrow> nat \<Rightarrow> nat \<Rightarrow> semver" where
  "Semver a b c = \<lparr>major = a, minor = b, patch = c\<rparr>"

definition semver_lt :: "semver \<Rightarrow> semver \<Rightarrow> bool" where
  "semver_lt a b =
     (major a < major b \<or>
      (major a = major b \<and> (minor a < minor b \<or> (minor a = minor b \<and> patch a < patch b))))"

definition semver_gte :: "semver \<Rightarrow> semver \<Rightarrow> bool" where
  "semver_gte a b = (\<not> semver_lt a b)"

definition semver_min :: "semver \<Rightarrow> semver \<Rightarrow> semver" where
  "semver_min a b = (if semver_lt a b then a else b)"

definition semver_max :: "semver \<Rightarrow> semver \<Rightarrow> semver" where
  "semver_max a b = (if semver_lt a b then b else a)"

text \<open>
  Modelled from the spec: \<open>NodeBinary\<close> and \<open>Capability\<close> (nodeBinaryProvider.ts is not
  among the sources; its tests are). A binary carries a path and an optional precise
  version. The capability query returns the caller's default when the version is
  imprecisely known and otherwise compares the version with the capability's minimum
  in the threshold table. The table itself is a parameter of \<open>hasIn\<close>.
\<close>

datatype capability = UseSpacesInRequirePath | UseInspectPublishUid

record node_binary =
  path :: string
  version :: "semver option"

definition NodeBinary :: "string \<Rightarrow> semver option \<Rightarrow> node_binary" where
  "NodeBinary p v = \<lparr>path = p, version = v\<rparr>"

definition isPreciselyKnown :: "node_binary \<Rightarrow> bool" where
  "isPreciselyKnown b = (version b \<noteq> None)"

definition hasIn :: "(capability \<Rightarrow> semver) \<Rightarrow> node_binary \<Rightarrow> capability \<Rightarrow> bool \<Rightarrow> bool" where
  "hasIn table b c assumeIfUnknown =
     (case version b of
        None \<Rightarrow> assumeIfUnknown
      | Some v \<Rightarrow> semver_gte v (table c))"

text \<open>
  Modelled from the spec: the threshold table. The spec gives no numbers; the test
  matrix of nodeBinaryProvider.test.ts fixes them as far as it goes: 11.0.0 lacks
  \<open>UseSpacesInRequirePath\<close> and 12.0.0 has it; 12.0.0 lacks \<open>UseInspectPublishUid\<close> and
  12.8.0 has it. The second minimum is taken as 12.6.0, inside that bracket.
\<close>

fun capabilityTable :: "capability \<Rightarrow> semver" where
  "capabilityTable UseSpacesInRequirePath = Semver 12 0 0"
| "capabilityTable UseInspectPublishUid = Semver 12 6 0"

text \<open>\<open>has(capability, assumeIfUnknown = true)\<close>\<close>

definition has :: "node_binary \<Rightarrow> capability \<Rightarrow> bool \<Rightarrow> bool" where
  "has = hasIn capabilityTable"

subsection \<open>Launcher state\<close>

type_synonym connection = nat
type_synonym server = nat
type_synonym program = nat

text \<open>
  Modelled from the spec: \<open>EnvironmentVars\<close> (common/environmentVars.ts is not among the
  sources): a set of variables, a value being a string or \<open>null\<close>; \<open>merge\<close> is in
  increasing precedence, \<open>lookup\<close> reads one variable.
\<close>

type_synonym environment = "string \<rightharpoonup> string option"

definition merge :: "environment \<Rightarrow> environment \<Rightarrow> environment" where
  "merge a b = a ++ b"

definition lookup :: "environment \<Rightarrow> string \<Rightarrow> string option" where
  "lookup e k = (case e k of Some (Some v) \<Rightarrow> Some v | _ \<Rightarrow> None)"

text \<open>
  The fields of the launch configuration \<open>T\<close> that the base class reads; \<open>trace\<close> is a
  boolean or an options object with a \<open>stdio\<close> flag.
\<close>

datatype trace_option = TraceFlag bool | TraceOptions (stdio: bool)

record node_config =
  timeout :: int
  cwd :: "string option"
  envFile :: "string option"
  env :: environment
  autoAttachChildProcesses :: bool
  trace :: trace_option

datatype cancellation = WithTimeout int | NeverCancelled

record launch_context =
  targetOrigin :: nat
  cancellationToken :: cancellation

text \<open>
  \<open>IRunData\<close>. The logger and the path resolver are collaborators that no operation
  below reads; they are left out of the record.
\<close>

record run_data =
  server :: server
  serverAddress :: string
  params :: node_config
  "context" :: launch_context

text \<open>The value type of the \<open>seenOpeners\<close> map: \<open>{ openedBy: string | undefined }\<close>.\<close>

record opener_entry =
  openedBy :: "string option"

text \<open>
  A target as the launcher builds it: the announced id and opener id of the target
  descriptor, and the parent handed to the constructor. \<open>NodeWorkerTarget\<close> is the
  worker sub-target of \<open>listenToWorkerDomain\<close>.
\<close>

datatype target =
    NodeTarget (targetId: string) (openerId: "string option") (parent: "target option")
  | NodeWorkerTarget (targetId: string) (openerId: "string option") (parent: "target option")

record stop_metadata =
  code :: int
  killed :: bool

text \<open>The result of \<open>getBootloaderFile\<close>; the disposer closure is one of two.\<close>

datatype disposer = NoDispose | Unlink string

record bootloader_file =
  interpolatedPath :: string
  dispose :: disposer

datatype launch_error =
    CannotLoadEnvironmentVars
  | WriteFileFailed string
  | ListenFailed

text \<open>\<open>IProcessTelemetry\<close> as the evaluated expression builds it.\<close>

record process_telemetry =
  processId :: int
  nodeVersion :: string
  architecture :: string

text \<open>
  Calls on collaborators, in the order the launcher makes them. A stop request carries,
  besides the program it is sent to, the value of \<open>this.program\<close> at the moment of the
  call; the wait of \<open>restart\<close> carries its timeout in milliseconds and the connections
  waited for.
\<close>

datatype event =
    ServerClose server
  | ProgramStop program "program option"
  | AwaitDisconnects nat "connection list"
  | WarnCloseTimeout
  | ConnectionClose connection
  | LaunchProgram run_data
  | FireTerminated stop_metadata
  | SocketDestroy connection
  | RuntimeEvaluate nat
  | LogUndefinedResult
  | LogWillRetry
  | Delay nat
  | TelemetryReport string string
  | GotTelemetry program process_telemetry

text \<open>
  The launcher instance, with the two pieces of the outside world it writes: the file
  system (path to contents) and the sequence of collaborator calls made so far.
  \<open>serverConnections\<close> is a JavaScript \<open>Set\<close>, which iterates in insertion order: a list
  without duplicates. \<open>bootloaderFile\<close> is the slot of \<open>once(getBootloaderFile)\<close>: empty,
  or the settled result of the one call made.
\<close>

record launcher =
  run :: "run_data option"
  serverConnections :: "connection list"
  targets :: "string \<rightharpoonup> target"
  program :: "program option"
  bootloaderFile :: "(launch_error + bootloader_file) option"
  seenOpeners :: "string \<rightharpoonup> opener_entry"
  files :: "string \<rightharpoonup> string"
  calls :: "event list"

definition newLauncher :: "(string \<rightharpoonup> string) \<Rightarrow> launcher" where
  "newLauncher fs =
     \<lparr>run = None, serverConnections = [], targets = Map.empty, program = None,
      bootloaderFile = None, seenOpeners = Map.empty, files = fs, calls = []\<rparr>"

definition emit :: "event list \<Rightarrow> launcher \<Rightarrow> launcher" where
  "emit es s = s\<lparr>calls := calls s @ es\<rparr>"

text \<open>The payload of the \<open>VSCODE_INSPECTOR_OPTIONS\<close> variable, \<open>IBootloaderInfo\<close>.\<close>

datatype auto_attach_mode = Always

record bootloader_info =
  inspectorIpc :: string
  deferredMode :: bool
  waitForDebugger :: string
  execPath :: "string option"
  onlyEntrypoint :: bool
  verbose :: "bool option"
  autoAttachMode :: auto_attach_mode
  mandatePortTracking :: "bool option"

text \<open>
  What the launcher is given from outside: the OS temporary directory, the bootloader's
  installed path after \<open>forceForwardSlashes\<close>, \<open>path.join\<close>, \<open>JSON.stringify\<close> on a string,
  whether \<open>fs.promises.writeFile\<close> to a path succeeds, the ambient process environment,
  \<open>dotenv.parse\<close> (\<open>None\<close> when it throws), the result of \<open>findInPath\<close> for \<open>node\<close>,
  the port lease tracker's \<open>isMandated\<close>, the text of
  \<open>variableDelimiter + JSON.stringify(bootloaderInfo)\<close>, and the subclass's two abstract
  methods: \<open>resolveParams\<close>, and for \<open>launchProgram\<close> the process handle it leaves in
  \<open>this.program\<close>. The generic launch configuration is the type \<open>'c\<close>.
\<close>

record 'c host =
  tmpdir :: string
  targetPath :: string
  pathJoin :: "string \<Rightarrow> string \<Rightarrow> string"
  jsonStringify :: "string \<Rightarrow> string"
  writeOk :: "string \<Rightarrow> bool"
  processEnv :: environment
  dotenvParse :: "string \<Rightarrow> environment option"
  nodeInPath :: "string option"
  isMandated :: bool
  inspectorOptions :: "bootloader_info \<Rightarrow> string"
  resolveParams :: "'c \<Rightarrow> node_config option"
  spawned :: "run_data \<Rightarrow> program option"

subsection \<open>Opener chain (\<open>_startSession\<close>)\<close>

text \<open>
  The \<open>while\<close> loop of \<open>_startSession\<close>. It has no cycle guard, so it is a partial
  function: \<open>None\<close> is a loop that never exits.
\<close>

partial_function (option) livingOpener ::
  "(string \<rightharpoonup> target) \<Rightarrow> (string \<rightharpoonup> opener_entry) \<Rightarrow> string option \<Rightarrow> string option option"
where
  "livingOpener live seen livingOpenerId =
     (case livingOpenerId of
        None \<Rightarrow> Some livingOpenerId
      | Some i \<Rightarrow>
          if i \<noteq> [] \<and> live i = None then
            (case seen i of
               None \<Rightarrow> Some livingOpenerId
             | Some e \<Rightarrow> livingOpener live seen (openedBy e))
          else Some livingOpenerId)"

text \<open>The last constructor argument: \<open>livingOpenerId ? this.targets.get(livingOpenerId) : undefined\<close>.\<close>

definition parentOf :: "(string \<rightharpoonup> target) \<Rightarrow> string option \<Rightarrow> target option" where
  "parentOf live livingOpenerId =
     (case livingOpenerId of
        None \<Rightarrow> None
      | Some i \<Rightarrow> if i \<noteq> [] then live i else None)"

text \<open>The parent \<open>_startSession\<close> gives a target that announces opener id \<open>oid\<close>.\<close>

definition resolvedParent ::
  "(string \<rightharpoonup> target) \<Rightarrow> (string \<rightharpoonup> opener_entry) \<Rightarrow> string option \<Rightarrow> target option option"
where
  "resolvedParent live seen oid = map_option (parentOf live) (livingOpener live seen oid)"

text \<open>
  Vocabulary for the walk: one replacement step, its iteration, the loop guard as the
  code has it, and the guard as the specification words it (not live and present in
  \<open>seenOpeners\<close>).
\<close>

definition nextOpener :: "(string \<rightharpoonup> opener_entry) \<Rightarrow> string option \<Rightarrow> string option" where
  "nextOpener seen cur =
     (case cur of
        None \<Rightarrow> None
      | Some i \<Rightarrow> (case seen i of None \<Rightarrow> None | Some e \<Rightarrow> openedBy e))"

fun openerChain :: "(string \<rightharpoonup> opener_entry) \<Rightarrow> string option \<Rightarrow> nat \<Rightarrow> string option" where
  "openerChain seen cur 0 = cur"
| "openerChain seen cur (Suc n) = openerChain seen (nextOpener seen cur) n"

definition walkContinues ::
  "(string \<rightharpoonup> target) \<Rightarrow> (string \<rightharpoonup> opener_entry) \<Rightarrow> string option \<Rightarrow> bool"
where
  "walkContinues live seen cur =
     (case cur of
        None \<Rightarrow> False
      | Some i \<Rightarrow> i \<noteq> [] \<and> live i = None \<and> seen i \<noteq> None)"

definition firstStop ::
  "(string \<rightharpoonup> target) \<Rightarrow> (string \<rightharpoonup> opener_entry) \<Rightarrow> string option \<Rightarrow> string option \<Rightarrow> bool"
where
  "firstStop live seen cur r =
     (\<exists>n. r = openerChain seen cur n \<and> \<not> walkContinues live seen r \<and>
          (\<forall>m<n. walkContinues live seen (openerChain seen cur m)))"

definition walkContinues_spec ::
  "(string \<rightharpoonup> target) \<Rightarrow> (string \<rightharpoonup> opener_entry) \<Rightarrow> string option \<Rightarrow> bool"
where
  "walkContinues_spec live seen cur =
     (case cur of
        None \<Rightarrow> False
      | Some i \<Rightarrow> live i = None \<and> seen i \<noteq> None)"

subsection \<open>Connections, teardown, launch and restart\<close>

definition closeAllConnections :: "launcher \<Rightarrow> launcher" where
  "closeAllConnections s =
     (emit (map ConnectionClose (serverConnections s)) s)\<lparr>serverConnections := []\<rparr>"

definition runDispose :: "disposer \<Rightarrow> (string \<rightharpoonup> string) \<Rightarrow> (string \<rightharpoonup> string)" where
  "runDispose d fs = (case d of NoDispose \<Rightarrow> fs | Unlink p \<Rightarrow> fs(p := None))"

text \<open>\<open>_stopServer\<close>\<close>

definition stopServer :: "launcher \<Rightarrow> launcher" where
  "stopServer s =
     (let s1 = (case run s of None \<Rightarrow> s | Some r \<Rightarrow> emit [ServerClose (server r)] s);
          s2 = s1\<lparr>run := None\<rparr>;
          s3 = (case bootloaderFile s2 of
                  Some (Inr f) \<Rightarrow> s2\<lparr>files := runDispose (dispose f) (files s2)\<rparr>
                | _ \<Rightarrow> s2);
          s4 = s3\<lparr>bootloaderFile := None\<rparr>
      in closeAllConnections s4)"

definition dispose_launcher :: "launcher \<Rightarrow> launcher" where
  "dispose_launcher s = stopServer s"

definition onProgramTerminated :: "stop_metadata \<Rightarrow> launcher \<Rightarrow> launcher" where
  "onProgramTerminated result s = (stopServer (emit [FireTerminated result] s))\<lparr>program := None\<rparr>"

definition terminate :: "launcher \<Rightarrow> launcher" where
  "terminate s =
     (case program s of
        Some p \<Rightarrow> emit [ProgramStop p (program s)] s
      | None \<Rightarrow> onProgramTerminated \<lparr>code = 0, killed = True\<rparr> s)"

text \<open>The abstract \<open>launchProgram\<close>: the call is recorded and the subclass sets the handle.\<close>

definition launchProgram :: "'c host \<Rightarrow> run_data \<Rightarrow> launcher \<Rightarrow> launcher" where
  "launchProgram h rd s = (emit [LaunchProgram rd] s)\<lparr>program := spawned h rd\<rparr>"

text \<open>
  \<open>launch\<close>; \<open>started\<close> is the outcome of \<open>_startServer\<close>: the listening server and its
  pipe, or the listen error.
\<close>

definition launch ::
  "'c host \<Rightarrow> 'c \<Rightarrow> launch_context \<Rightarrow> launch_error + server \<times> string \<Rightarrow> launcher \<Rightarrow>
   (launch_error + bool) \<times> launcher"
where
  "launch h ps ctx started s =
     (case resolveParams h ps of
        None \<Rightarrow> (Inr False, s)
      | Some resolved \<Rightarrow>
          let s1 = stopServer s in
          (case started of
             Inl e \<Rightarrow> (Inl e, s1)
           | Inr (srv, pipe) \<Rightarrow>
               let r = \<lparr>server = srv, serverAddress = pipe, params = resolved, context = ctx\<rparr>
               in (Inr True, launchProgram h r (s1\<lparr>run := Some r\<rparr>))))"

definition disconnectedWithin :: "nat \<Rightarrow> nat option \<Rightarrow> bool" where
  "disconnectedWithin ms t = (case t of None \<Rightarrow> False | Some d \<Rightarrow> d < ms)"

text \<open>
  \<open>restart\<close>. \<open>disconnectsAfter c\<close> is the time in milliseconds, counted from the start of
  the wait, after which connection \<open>c\<close> signals disconnect (\<open>None\<close>: it never does). The
  race against \<open>delay(2000)\<close> is won by the connections when every tracked connection
  signals earlier than that; \<open>Promise.all\<close> of no connections resolves at once. A
  connection that signals disconnect removes itself from \<open>serverConnections\<close> (the
  handler registered in \<open>acquireTarget\<close>). No other operation of the launcher runs
  between the steps of one \<open>restart\<close>.
\<close>

definition restart :: "'c host \<Rightarrow> 'c option \<Rightarrow> (connection \<Rightarrow> nat option) \<Rightarrow> launcher \<Rightarrow> launcher" where
  "restart h newParams disconnectsAfter s =
     (case run s of
        None \<Rightarrow> s
      | Some r \<Rightarrow>
          let stopped =
            (case program s of
               None \<Rightarrow> s
             | Some p \<Rightarrow>
                 let s1 = s\<lparr>program := None\<rparr>;
                     s2 = emit [ProgramStop p (program s1)] s1;
                     waiting = serverConnections s2;
                     s3 = emit [AwaitDisconnects 2000 waiting] s2;
                     closeOk = list_all (\<lambda>c. disconnectedWithin 2000 (disconnectsAfter c)) waiting;
                     s4 = s3\<lparr>serverConnections :=
                            filter (\<lambda>c. \<not> disconnectedWithin 2000 (disconnectsAfter c))
                              (serverConnections s3)\<rparr>
                 in if \<not> closeOk then closeAllConnections (emit [WarnCloseTimeout] s4) else s4)
          in launchProgram h
               (r\<lparr>params :=
                    (case newParams of
                       None \<Rightarrow> params r
                     | Some n \<Rightarrow> (case resolveParams h n of None \<Rightarrow> params r | Some p \<Rightarrow> p)),
                  context :=
                    (context r)\<lparr>cancellationToken :=
                       (if timeout (params r) > 0 then WithTimeout (timeout (params r))
                        else NeverCancelled)\<rparr>\<rparr>)
               stopped)"

text \<open>
  Vocabulary for \<open>restart\<close>: the run data handed to \<open>launchProgram\<close>, whether the timeout
  wins the race, and the connections still tracked when it does.
\<close>

definition relaunchData :: "'c host \<Rightarrow> 'c option \<Rightarrow> run_data \<Rightarrow> run_data" where
  "relaunchData h newParams r =
     r\<lparr>params :=
         (case newParams of
            None \<Rightarrow> params r
          | Some n \<Rightarrow> (case resolveParams h n of None \<Rightarrow> params r | Some p \<Rightarrow> p)),
       context :=
         (context r)\<lparr>cancellationToken :=
            (if timeout (params r) > 0 then WithTimeout (timeout (params r)) else NeverCancelled)\<rparr>\<rparr>"

definition timeoutWins :: "(connection \<Rightarrow> nat option) \<Rightarrow> connection list \<Rightarrow> bool" where
  "timeoutWins disconnectsAfter waiting =
     (\<exists>c \<in> set waiting. \<not> disconnectedWithin 2000 (disconnectsAfter c))"

definition stragglers :: "(connection \<Rightarrow> nat option) \<Rightarrow> connection list \<Rightarrow> connection list" where
  "stragglers disconnectsAfter waiting =
     filter (\<lambda>c. \<not> disconnectedWithin 2000 (disconnectsAfter c)) waiting"

subsection \<open>Sessions and targets\<close>

text \<open>
  \<open>acquireTarget\<close> up to its \<open>await\<close>: the connection is tracked. The port lease is a
  collaborator's and is left out.
\<close>

definition acquireTarget :: "connection \<Rightarrow> launcher \<Rightarrow> launcher" where
  "acquireTarget c s =
     s\<lparr>serverConnections :=
         (if c \<in> set (serverConnections s) then serverConnections s
          else serverConnections s @ [c])\<rparr>"

text \<open>The handler \<open>connection.onDisconnected(() => this.serverConnections.delete(connection))\<close>.\<close>

definition connectionDisconnected :: "connection \<Rightarrow> launcher \<Rightarrow> launcher" where
  "connectionDisconnected c s = s\<lparr>serverConnections := removeAll c (serverConnections s)\<rparr>"

text \<open>
  \<open>_startSession\<close> in its two synchronous parts: from the accepted socket to the wait
  for the target's announcement, and from the announcement (target id \<open>tid\<close>, opener id
  \<open>oid\<close>) on. The second part is \<open>None\<close> when the opener walk does not end. The
  \<open>processId\<close> default of old bootloaders is not read by any operation here and is
  left out.
\<close>

definition startSession_accept :: "connection \<Rightarrow> launcher \<Rightarrow> launcher" where
  "startSession_accept c s = (case run s of None \<Rightarrow> s | Some r \<Rightarrow> acquireTarget c s)"

definition startSession_announced ::
  "connection \<Rightarrow> string \<Rightarrow> string option \<Rightarrow> launcher \<Rightarrow> launcher option"
where
  "startSession_announced c tid oid s =
     (case run s of
        None \<Rightarrow> Some (emit [SocketDestroy c] s)
      | Some r \<Rightarrow>
          (case livingOpener (targets s) (seenOpeners s) oid of
             None \<Rightarrow> None
           | Some lo \<Rightarrow>
               Some (s\<lparr>seenOpeners := (seenOpeners s)(tid \<mapsto> \<lparr>openedBy = oid\<rparr>),
                       targets := (targets s)(tid \<mapsto> NodeTarget tid oid (parentOf (targets s) lo))\<rparr>)))"

text \<open>The handler \<open>target.onDisconnect(() => this.targets.remove(targetInfo.targetId))\<close>.\<close>

definition targetDisconnected :: "string \<Rightarrow> launcher \<Rightarrow> launcher" where
  "targetDisconnected tid s = s\<lparr>targets := (targets s)(tid := None)\<rparr>"

text \<open>The \<open>attachedToWorker\<close> handler of \<open>listenToWorkerDomain\<close>, and the worker's removal.\<close>

definition attachedToWorker :: "target \<Rightarrow> string \<Rightarrow> launcher \<Rightarrow> launcher" where
  "attachedToWorker p sessionId s =
     (let wid = targetId p @ ''-'' @ sessionId
      in s\<lparr>targets := (targets s)(wid \<mapsto> NodeWorkerTarget wid (Some (targetId p)) (Some p))\<rparr>)"

definition workerDisposed :: "target \<Rightarrow> string \<Rightarrow> launcher \<Rightarrow> launcher" where
  "workerDisposed p sessionId s = s\<lparr>targets := (targets s)(targetId p @ ''-'' @ sessionId := None)\<rparr>"

subsection \<open>Bootloader file (\<open>getBootloaderFile\<close>)\<close>

definition nearFilename :: string where
  "nearFilename = ''.vscode-js-debug-bootloader.js''"

definition bootloaderContents :: "'c host \<Rightarrow> string" where
  "bootloaderContents h = ''require('' @ jsonStringify h (targetPath h) @ '')''"

text \<open>\<open>fs.promises.writeFile\<close>: the file's new contents, or the error that ends the call.\<close>

definition writeFile ::
  "'c host \<Rightarrow> string \<Rightarrow> string \<Rightarrow> (string \<rightharpoonup> string) \<Rightarrow> launch_error + (string \<rightharpoonup> string)"
where
  "writeFile h p contents fs = (if writeOk h p then Inr (fs(p \<mapsto> contents)) else Inl (WriteFileFailed p))"

definition getBootloaderFile ::
  "'c host \<Rightarrow> string option \<Rightarrow> node_binary \<Rightarrow> (string \<rightharpoonup> string) \<Rightarrow>
   (launch_error + bootloader_file) \<times> (string \<rightharpoonup> string)"
where
  "getBootloaderFile h wd binary fs =
     (if \<not> includesSpace (targetPath h) then
        (Inr \<lparr>interpolatedPath = targetPath h, dispose = NoDispose\<rparr>, fs)
      else if has binary UseSpacesInRequirePath True then
        (Inr \<lparr>interpolatedPath = [CHR 0x22] @ targetPath h @ [CHR 0x22], dispose = NoDispose\<rparr>, fs)
      else if \<not> includesSpace (tmpdir h) \<or> \<not> truthy wd then
        (let tmpPath = pathJoin h (tmpdir h) ''vscode-js-debug-bootloader.js'' in
         case writeFile h tmpPath (bootloaderContents h) fs of
           Inl e \<Rightarrow> (Inl e, fs)
         | Inr fs' \<Rightarrow> (Inr \<lparr>interpolatedPath = tmpPath, dispose = NoDispose\<rparr>, fs'))
      else
        (let nearPath = pathJoin h (the wd) nearFilename in
         case writeFile h nearPath (bootloaderContents h) fs of
           Inl e \<Rightarrow> (Inl e, fs)
         | Inr fs' \<Rightarrow>
             (Inr \<lparr>interpolatedPath = ''./'' @ nearFilename, dispose = Unlink nearPath\<rparr>, fs')))"

text \<open>The memoized \<open>this.bootloaderFile\<close>: the first call runs, later calls share its result.\<close>

definition bootloaderFileOnce ::
  "'c host \<Rightarrow> string option \<Rightarrow> node_binary \<Rightarrow> launcher \<Rightarrow> (launch_error + bootloader_file) \<times> launcher"
where
  "bootloaderFileOnce h wd binary s =
     (case bootloaderFile s of
        Some r \<Rightarrow> (r, s)
      | None \<Rightarrow>
          (case getBootloaderFile h wd binary (files s) of
             (r, fs') \<Rightarrow> (r, s\<lparr>bootloaderFile := Some r, files := fs'\<rparr>)))"

subsection \<open>Environment (\<open>getConfiguredEnvironment\<close>, \<open>resolveEnvironment\<close>)\<close>

text \<open>\<open>stripBOM\<close> on the UTF-8 bytes of the file: U+FEFF is the bytes EF BB BF.\<close>

definition stripBOM :: "string \<Rightarrow> string" where
  "stripBOM s = (if take 3 s = [CHR 0xEF, CHR 0xBB, CHR 0xBF] then drop 3 s else s)"

text \<open>\<open>readEnvFile\<close>: a missing file is the empty environment; \<open>None\<close> when parsing throws.\<close>

definition readEnvFile :: "'c host \<Rightarrow> (string \<rightharpoonup> string) \<Rightarrow> string \<Rightarrow> environment option" where
  "readEnvFile h fs file =
     (case fs file of
        None \<Rightarrow> Some Map.empty
      | Some text \<Rightarrow> dotenvParse h (stripBOM text))"

definition getConfiguredEnvironment ::
  "'c host \<Rightarrow> (string \<rightharpoonup> string) \<Rightarrow> node_config \<Rightarrow> launch_error + environment"
where
  "getConfiguredEnvironment h fs p =
     (if truthy (envFile p) then
        (case readEnvFile h fs (the (envFile p)) of
           None \<Rightarrow> Inl CannotLoadEnvironmentVars
         | Some e \<Rightarrow> Inr (merge (merge Map.empty e) (env p)))
      else Inr (merge Map.empty (env p)))"

definition bootloaderInfo :: "'c host \<Rightarrow> run_data \<Rightarrow> bootloader_info" where
  "bootloaderInfo h rd =
     \<lparr>inspectorIpc = serverAddress rd,
      deferredMode = False,
      waitForDebugger = [],
      execPath = nodeInPath h,
      onlyEntrypoint = (\<not> autoAttachChildProcesses (params rd)),
      verbose =
        (if (case trace (params rd) of TraceFlag b \<Rightarrow> b | TraceOptions st \<Rightarrow> st) then Some True
         else None),
      autoAttachMode = Always,
      mandatePortTracking = (if isMandated h then Some True else None)\<rparr>"

text \<open>
  The three steps that build \<open>env.NODE_OPTIONS\<close>: the literal with the bootloader's
  path, then the two conditional \<open>+=\<close>.
\<close>

definition nodeOptions :: "string \<Rightarrow> string option \<Rightarrow> string option \<Rightarrow> string" where
  "nodeOptions bootloaderPath baseEnvOpts globalOpts =
     (let o0 = '' --require '' @ bootloaderPath @ '' '';
          o1 = (if truthy baseEnvOpts then o0 @ '' '' @ the baseEnvOpts @ '' '' else o0);
          o2 = (if truthy globalOpts then o1 @ '' '' @ the globalOpts else o1)
      in o2)"

text \<open>
  \<open>resolveEnvironment\<close>; \<open>additionalOptions\<close> is the spread \<open>...additionalOptions\<close> over the
  bootloader info.
\<close>

definition resolveEnvironment ::
  "'c host \<Rightarrow> (bootloader_info \<Rightarrow> bootloader_info) \<Rightarrow> run_data \<Rightarrow> node_binary \<Rightarrow> launcher \<Rightarrow>
   (launch_error + environment) \<times> launcher"
where
  "resolveEnvironment h additionalOptions rd binary s =
     (case getConfiguredEnvironment h (files s) (params rd) of
        Inl e \<Rightarrow> (Inl e, s)
      | Inr baseEnv \<Rightarrow>
          (case bootloaderFileOnce h (cwd (params rd)) binary s of
             (Inl e, s') \<Rightarrow> (Inl e, s')
           | (Inr bootloader, s') \<Rightarrow>
               (Inr (merge baseEnv
                      [''NODE_OPTIONS'' \<mapsto>
                         Some (nodeOptions (interpolatedPath bootloader)
                                 (lookup baseEnv ''NODE_OPTIONS'')
                                 (lookup (processEnv h) ''NODE_OPTIONS'')),
                       ''VSCODE_INSPECTOR_OPTIONS'' \<mapsto>
                         Some (inspectorOptions h (additionalOptions (bootloaderInfo h rd))),
                       ''ELECTRON_RUN_AS_NODE'' \<mapsto> None]),
                s')))"

subsection \<open>Telemetry (\<open>gatherTelemetryFromCdp\<close>)\<close>

text \<open>
  The value of an evaluation result, as far as the function tells values apart: its
  truthiness and whether \<open>typeof\<close> gives \<open>object\<close>.
\<close>

datatype js_value =
    JUndefined
  | JNull
  | JBoolean bool
  | JNumber int
  | JString string
  | JObject process_telemetry

fun js_truthy :: "js_value \<Rightarrow> bool" where
  "js_truthy JUndefined = False"
| "js_truthy JNull = False"
| "js_truthy (JBoolean b) = b"
| "js_truthy (JNumber n) = (n \<noteq> 0)"
| "js_truthy (JString s) = (s \<noteq> [])"
| "js_truthy (JObject t) = True"

fun typeofObject :: "js_value \<Rightarrow> bool" where
  "typeofObject JNull = True"
| "typeofObject (JObject t) = True"
| "typeofObject v = False"

text \<open>
  The loop, from attempt \<open>retries\<close> on. \<open>evaluate k\<close> is what the \<open>k\<close>-th
  \<open>cdp.Runtime.evaluate\<close> resolves to (\<open>None\<close>: no response object) and \<open>programAt k\<close> is
  \<open>this.program\<close> when the launcher resumes after it. The result is the returned
  telemetry and the collaborator calls made, in order.
\<close>

function gatherTelemetryFromCdp ::
  "(nat \<Rightarrow> js_value option) \<Rightarrow> (nat \<Rightarrow> program option) \<Rightarrow> nat \<Rightarrow> event list \<Rightarrow>
   process_telemetry option \<times> event list"
where
  "gatherTelemetryFromCdp evaluate programAt retries done =
     (if retries < 8 then
        (let done1 = done @ [RuntimeEvaluate retries] in
         case programAt retries of
           None \<Rightarrow> (None, done1)
         | Some prog \<Rightarrow>
             (case evaluate retries of
                None \<Rightarrow> (None, done1 @ [LogUndefinedResult])
              | Some v \<Rightarrow>
                  if \<not> js_truthy v then (None, done1 @ [LogUndefinedResult])
                  else if \<not> typeofObject v then
                    gatherTelemetryFromCdp evaluate programAt (Suc retries)
                      (done1 @ [LogWillRetry, Delay (50 * 2 ^ retries)])
                  else
                    (case v of
                       JObject result \<Rightarrow>
                         (Some result,
                          done1 @ [TelemetryReport (nodeVersion result) (architecture result),
                                   GotTelemetry prog result])
                     | _ \<Rightarrow> (None, done1))))
      else (None, done))"
  by pat_completeness auto
termination
  by (relation "measure (\<lambda>(evaluate, programAt, retries, done). 8 - retries)") auto

declare gatherTelemetryFromCdp.simps [simp del]

text \<open>
  Vocabulary for the loop: an attempt that leads to a retry, the calls of one such
  attempt, and the calls of the first \<open>n\<close> attempts when each leads to a retry.
\<close>

definition retryable :: "(nat \<Rightarrow> js_value option) \<Rightarrow> (nat \<Rightarrow> program option) \<Rightarrow> nat \<Rightarrow> bool" where
  "retryable evaluate programAt k =
     (case programAt k of
        None \<Rightarrow> False
      | Some prog \<Rightarrow>
          (case evaluate k of
             None \<Rightarrow> False
           | Some v \<Rightarrow> js_truthy v \<and> \<not> typeofObject v))"

definition retryCalls :: "nat \<Rightarrow> event list" where
  "retryCalls k = [RuntimeEvaluate k, LogWillRetry, Delay (50 * 2 ^ k)]"

definition retriesUpTo :: "nat \<Rightarrow> event list" where
  "retriesUpTo n = concat (map retryCalls [0..<n])"

subsection \<open>Operations of the launcher as one step function\<close>

text \<open>
  Everything that changes a launcher: its public methods, its handlers, and the
  subclass's call of \<open>onProgramTerminated\<close>.
\<close>

datatype 'c launcher_op =
    Launch 'c launch_context "launch_error + server \<times> string"
  | Terminate
  | Restart "'c option" "connection \<Rightarrow> nat option"
  | Dispose
  | ProgramTerminated stop_metadata
  | SocketAccepted connection
  | TargetAnnounced connection string "string option"
  | TargetDisconnected string
  | ConnectionDisconnected connection
  | WorkerAttached target string
  | WorkerDisposed target string
  | ResolveEnvironment run_data node_binary

fun step :: "'c host \<Rightarrow> 'c launcher_op \<Rightarrow> launcher \<Rightarrow> launcher option" where
  "step h (Launch ps ctx started) s = Some (snd (launch h ps ctx started s))"
| "step h Terminate s = Some (terminate s)"
| "step h (Restart newParams disconnectsAfter) s = Some (restart h newParams disconnectsAfter s)"
| "step h Dispose s = Some (dispose_launcher s)"
| "step h (ProgramTerminated result) s = Some (onProgramTerminated result s)"
| "step h (SocketAccepted c) s = Some (startSession_accept c s)"
| "step h (TargetAnnounced c tid oid) s = startSession_announced c tid oid s"
| "step h (TargetDisconnected tid) s = Some (targetDisconnected tid s)"
| "step h (ConnectionDisconnected c) s = Some (connectionDisconnected c s)"
| "step h (WorkerAttached p sessionId) s = Some (attachedToWorker p sessionId s)"
| "step h (WorkerDisposed p sessionId) s = Some (workerDisposed p sessionId s)"
| "step h (ResolveEnvironment rd binary) s = Some (snd (resolveEnvironment h id rd binary s))"

fun steps :: "'c host \<Rightarrow> 'c launcher_op list \<Rightarrow> launcher \<Rightarrow> launcher option" where
  "steps h [] s = Some s"
| "steps h (x # xs) s = (case step h x s of None \<Rightarrow> None | Some s' \<Rightarrow> steps h xs s')"

subsection \<open>Sample values\<close>

text \<open>A configuration, a run, a host and a running launcher, used to instantiate the theorems.\<close>

definition sampleConfig :: node_config where
  "sampleConfig =
     \<lparr>timeout = 10000, cwd = Some ''/work dir'', envFile = None,
      env = [''NODE_OPTIONS'' \<mapsto> Some ''--inspect''],
      autoAttachChildProcesses = True, trace = TraceFlag False\<rparr>"

definition sampleRun :: run_data where
  "sampleRun =
     \<lparr>server = 1, serverAddress = ''/tmp/node-cdp.sock'', params = sampleConfig,
      context = \<lparr>targetOrigin = 0, cancellationToken = NeverCancelled\<rparr>\<rparr>"

definition sampleHost :: "node_config host" where
  "sampleHost =
     \<lparr>tmpdir = ''/tmp'',
      targetPath = ''/ext/bootloader.js'',
      pathJoin = (\<lambda>a b. a @ ''/'' @ b),
      jsonStringify = (\<lambda>x. [CHR 0x22] @ x @ [CHR 0x22]),
      writeOk = (\<lambda>p. True),
      processEnv = [''NODE_OPTIONS'' \<mapsto> Some ''--max-old-space-size=4096''],
      dotenvParse = (\<lambda>t. Some Map.empty),
      nodeInPath = Some ''/usr/bin/node'',
      isMandated = False,
      inspectorOptions = (\<lambda>i. '':::'' @ inspectorIpc i),
      resolveParams = Some,
      spawned = (\<lambda>rd. Some 8)\<rparr>"

definition sampleLauncher :: launcher where
  "sampleLauncher =
     \<lparr>run = Some sampleRun,
      serverConnections = [3, 4],
      targets = [''A'' \<mapsto> NodeTarget ''A'' None None],
      program = Some 7,
      bootloaderFile = None,
      seenOpeners = [''A'' \<mapsto> \<lparr>openedBy = None\<rparr>, ''B'' \<mapsto> \<lparr>openedBy = Some ''A''\<rparr>],
      files = Map.empty,
      calls = []\<rparr>"

text \<open>The same host with an installation path that has a space, and a telemetry object.\<close>

definition spacedHost :: "node_config host" where
  "spacedHost = sampleHost\<lparr>targetPath := ''/my ext/bootloader.js''\<rparr>"

definition sampleTelemetry :: process_telemetry where
  "sampleTelemetry = \<lparr>processId = 4242, nodeVersion = ''v12.8.0'', architecture = ''x64''\<rparr>"



section \<open>Definitions: the binary resolver\<close>

text \<open>
  Modelled from the spec: \<open>NodeBinaryProvider.resolveAndValidate\<close> (nodeBinaryProvider.ts
  is not among the sources; its tests are). What the resolver asks of the machine is a
  record: where an executable name resolves to, the semantic version a resolved binary
  reports (\<open>None\<close>: no usable output), what kind of program an executable name is, the
  configured minimum version, and the table from an alternate host's major version to
  its equivalent runtime version.
\<close>

datatype executable_kind = Runtime | PackageManager | AlternateHost

datatype resolve_error = CannotFindNodeBinary | NodeBinaryOutOfDate semver semver

record machine =
  resolveBinaryLocation :: "string \<Rightarrow> string option"
  getVersion :: "string \<Rightarrow> semver option"
  kindOf :: "string \<Rightarrow> executable_kind"
  minimumVersion :: semver
  hostTable :: "nat \<rightharpoonup> semver"

text \<open>
  Modelled from the spec: validation. A version below the configured minimum fails with
  the out-of-date condition carrying both versions; an imprecisely known version passes.
\<close>

definition validate :: "machine \<Rightarrow> string \<Rightarrow> semver option \<Rightarrow> resolve_error + node_binary" where
  "validate w location v =
     (case v of
        None \<Rightarrow> Inr (NodeBinary location None)
      | Some ver \<Rightarrow>
          if semver_lt ver (minimumVersion w) then Inl (NodeBinaryOutOfDate ver (minimumVersion w))
          else Inr (NodeBinary location (Some ver)))"

text \<open>Modelled from the spec: resolving the runtime itself, by its default name.\<close>

definition resolveRuntime :: "machine \<Rightarrow> resolve_error + node_binary" where
  "resolveRuntime w =
     (case resolveBinaryLocation w ''node'' of
        None \<Rightarrow> Inl CannotFindNodeBinary
      | Some location \<Rightarrow> validate w location (getVersion w location))"

text \<open>
  Modelled from the spec: the version of an alternate host. The host's own version is
  mapped through the table by its major component and combined with the version of the
  underlying runtime, if that is detectable. The combination is a parameter:
  the spec's text names the maximum, the tests of nodeBinaryProvider.test.ts
  (\<open>uses minimum node version\<close>) expect the minimum.
\<close>

definition remapHostVersion ::
  "(semver \<Rightarrow> semver \<Rightarrow> semver) \<Rightarrow> (nat \<rightharpoonup> semver) \<Rightarrow> semver \<Rightarrow> semver option \<Rightarrow> semver option"
where
  "remapHostVersion combine table hostVersion underlying =
     (case table (major hostVersion) of
        None \<Rightarrow> underlying
      | Some mapped \<Rightarrow>
          (case underlying of
             None \<Rightarrow> Some mapped
           | Some u \<Rightarrow> Some (combine mapped u)))"

text \<open>
  Modelled from the spec: the version of the underlying runtime binary, if detectable:
  the runtime's default name resolves and the resolved binary reports a version. It is
  the version as reported, before any validation.
\<close>

definition underlyingVersion :: "machine \<Rightarrow> semver option" where
  "underlyingVersion w =
     (case resolveBinaryLocation w ''node'' of
        None \<Rightarrow> None
      | Some location \<Rightarrow> getVersion w location)"

text \<open>
  Modelled from the spec: \<open>resolveAndValidate\<close> for an executable name and an optional
  version hint. A package-manager front-end whose runtime cannot be located succeeds
  with an imprecisely known version; any other failure of the runtime is kept. The
  version of an alternate host is remapped and then validated like any other.
\<close>

definition resolveAndValidateWith ::
  "(semver \<Rightarrow> semver \<Rightarrow> semver) \<Rightarrow> machine \<Rightarrow> string \<Rightarrow> nat option \<Rightarrow> resolve_error + node_binary"
where
  "resolveAndValidateWith combine w executable hint =
     (case resolveBinaryLocation w executable of
        None \<Rightarrow> Inl CannotFindNodeBinary
      | Some location \<Rightarrow>
          (case hint of
             Some n \<Rightarrow> validate w location (Some (Semver n 0 0))
           | None \<Rightarrow>
               (case kindOf w executable of
                  Runtime \<Rightarrow> validate w location (getVersion w location)
                | PackageManager \<Rightarrow>
                    (case resolveRuntime w of
                       Inl CannotFindNodeBinary \<Rightarrow> Inr (NodeBinary location None)
                     | Inl e \<Rightarrow> Inl e
                     | Inr b \<Rightarrow> Inr (NodeBinary location (version b)))
                | AlternateHost \<Rightarrow>
                    (case getVersion w location of
                       None \<Rightarrow> Inr (NodeBinary location None)
                     | Some hostVersion \<Rightarrow>
                         validate w location
                           (remapHostVersion combine (hostTable w) hostVersion
                              (underlyingVersion w))))))"

text \<open>Modelled from the spec: the resolver with the combination the spec's text names.\<close>

definition resolveAndValidate_spec :: "machine \<Rightarrow> string \<Rightarrow> nat option \<Rightarrow> resolve_error + node_binary" where
  "resolveAndValidate_spec = resolveAndValidateWith semver_max"

text \<open>Modelled from the spec: the resolver with the combination the tests expect.\<close>

definition resolveAndValidate :: "machine \<Rightarrow> string \<Rightarrow> nat option \<Rightarrow> resolve_error + node_binary" where
  "resolveAndValidate = resolveAndValidateWith semver_min"

text \<open>
  The stubs of the tests under \<open>electron versioning\<close>: \<open>electron\<close> resolves to
  \<open>/foo/electron\<close> and \<open>node\<close> to \<open>/node\<close>, each reporting a given version. The table has
  the two entries those tests determine (5 gives 10.0.0, 6 gives 12.0.0) and, for 9, a
  value the test \<open>uses minimum node version\<close> allows (anything from 10.0.0). The minimum
  version is not visible in the sources; 8.0.0 stands for it.
\<close>

definition electronTable :: "nat \<rightharpoonup> semver" where
  "electronTable = [5 \<mapsto> Semver 10 0 0, 6 \<mapsto> Semver 12 0 0, 9 \<mapsto> Semver 12 0 0]"

definition electronMachine :: "semver \<Rightarrow> semver \<Rightarrow> machine" where
  "electronMachine hostReports runtimeReports =
     \<lparr>resolveBinaryLocation =
        (\<lambda>e. if e = ''electron'' then Some ''/foo/electron''
             else if e = ''node'' then Some ''/node'' else None),
      getVersion =
        (\<lambda>p. if p = ''/foo/electron'' then Some hostReports
             else if p = ''/node'' then Some runtimeReports else None),
      kindOf = (\<lambda>e. if e = ''electron'' then AlternateHost else if e = ''node'' then Runtime else PackageManager),
      minimumVersion = Semver 8 0 0,
      hostTable = electronTable\<rparr>"

text \<open>
  The fixture directories of the tests, put on the path one at a time: \<open>npm\<close> resolves in
  each; \<open>node\<close> resolves and reports a version (\<open>up-to-date\<close>, \<open>outdated\<close>) or does not
  resolve (\<open>no-node\<close>).
\<close>

definition fixtureMachine :: "semver option \<Rightarrow> machine" where
  "fixtureMachine nodeReports =
     \<lparr>resolveBinaryLocation =
        (\<lambda>e. if e = ''npm'' then Some ''/fixture/npm''
             else if e = ''node'' \<and> nodeReports \<noteq> None then Some ''/fixture/node'' else None),
      getVersion = (\<lambda>p. if p = ''/fixture/node'' then nodeReports else None),
      kindOf = (\<lambda>e. if e = ''electron'' then AlternateHost else if e = ''node'' then Runtime else PackageManager),
      minimumVersion = Semver 8 0 0,
      hostTable = electronTable\<rparr>"

section \<open>Definitions: the process tree parser\<close>



definition isSpace :: "char \<Rightarrow> bool" where
  "isSpace c = (c = CHR '' '' \<or> c = CHR 0x09)"

definition isDigit :: "char \<Rightarrow> bool" where
  "isDigit c = (c \<in> set ''0123456789'')"

definition isWordChar :: "char \<Rightarrow> bool" where
  "isWordChar c =
     (isDigit c \<or> c = CHR ''_'' \<or>
      c \<in> set ''abcdefghijklmnopqrstuvwxyzABCDEFGHIJKLMNOPQRSTUVWXYZ'')"























section \<open>Theorems: the launcher\<close>

subsection \<open>State access\<close>

lemma calls_emit [simp]: "calls (emit es s) = calls s @ es"
  by (simp add: emit_def)

lemma emit_fields [simp]:
  "run (emit es s) = run s" "serverConnections (emit es s) = serverConnections s"
  "targets (emit es s) = targets s" "program (emit es s) = program s"
  "bootloaderFile (emit es s) = bootloaderFile s" "seenOpeners (emit es s) = seenOpeners s"
  "files (emit es s) = files s"
  by (simp_all add: emit_def)

lemma closeAllConnections_fields [simp]:
  "calls (closeAllConnections s) = calls s @ map ConnectionClose (serverConnections s)"
  "serverConnections (closeAllConnections s) = []"
  "run (closeAllConnections s) = run s" "targets (closeAllConnections s) = targets s"
  "program (closeAllConnections s) = program s"
  "bootloaderFile (closeAllConnections s) = bootloaderFile s"
  "seenOpeners (closeAllConnections s) = seenOpeners s" "files (closeAllConnections s) = files s"
  by (simp_all add: closeAllConnections_def)

lemma launchProgram_fields [simp]:
  "calls (launchProgram h rd s) = calls s @ [LaunchProgram rd]"
  "program (launchProgram h rd s) = spawned h rd"
  "serverConnections (launchProgram h rd s) = serverConnections s"
  "run (launchProgram h rd s) = run s" "targets (launchProgram h rd s) = targets s"
  "bootloaderFile (launchProgram h rd s) = bootloaderFile s"
  "seenOpeners (launchProgram h rd s) = seenOpeners s" "files (launchProgram h rd s) = files s"
  by (simp_all add: launchProgram_def)

subsection \<open>Opener chain\<close>

lemma livingOpener_stop:
  "\<not> walkContinues live seen cur \<Longrightarrow> livingOpener live seen cur = Some cur"
  by (subst livingOpener.simps) (auto simp: walkContinues_def split: option.splits)

lemma livingOpener_step:
  "walkContinues live seen cur \<Longrightarrow>
   livingOpener live seen cur = livingOpener live seen (nextOpener seen cur)"
  by (subst livingOpener.simps) (auto simp: walkContinues_def nextOpener_def split: option.splits)

lemma livingOpener_chain:
  "\<not> walkContinues live seen (openerChain seen cur n) \<Longrightarrow>
   \<forall>m<n. walkContinues live seen (openerChain seen cur m) \<Longrightarrow>
   livingOpener live seen cur = Some (openerChain seen cur n)"
proof (induction n arbitrary: cur)
  case 0
  then show ?case by (simp add: livingOpener_stop)
next
  case (Suc n)
  from Suc.prems(2) have c0: "walkContinues live seen cur" by force
  have "\<forall>m<n. walkContinues live seen (openerChain seen (nextOpener seen cur) m)"
  proof (intro allI impI)
    fix m assume "m < n"
    then have "Suc m < Suc n" by simp
    with Suc.prems(2) have "walkContinues live seen (openerChain seen cur (Suc m))" by blast
    then show "walkContinues live seen (openerChain seen (nextOpener seen cur) m)" by simp
  qed
  with Suc.IH [of "nextOpener seen cur"] Suc.prems(1)
  have "livingOpener live seen (nextOpener seen cur) = Some (openerChain seen cur (Suc n))"
    by simp
  with c0 show ?case by (simp add: livingOpener_step)
qed

lemma firstStop_here: "\<not> walkContinues live seen cur \<Longrightarrow> firstStop live seen cur cur"
  unfolding firstStop_def by (intro exI [of _ 0]) simp

lemma firstStop_next:
  assumes c: "walkContinues live seen cur"
    and f: "firstStop live seen (nextOpener seen cur) r"
  shows "firstStop live seen cur r"
proof -
  from f obtain n where
      n: "r = openerChain seen (nextOpener seen cur) n" "\<not> walkContinues live seen r"
         "\<forall>m<n. walkContinues live seen (openerChain seen (nextOpener seen cur) m)"
    unfolding firstStop_def by blast
  have "\<forall>m<Suc n. walkContinues live seen (openerChain seen cur m)"
  proof (intro allI impI)
    fix m assume m: "m < Suc n"
    show "walkContinues live seen (openerChain seen cur m)"
    proof (cases m)
      case 0
      with c show ?thesis by simp
    next
      case (Suc k)
      with m n(3) show ?thesis by simp
    qed
  qed
  with n(1,2) show ?thesis unfolding firstStop_def by (intro exI [of _ "Suc n"]) simp
qed

lemma livingOpener_Some_firstStop:
  assumes "livingOpener live seen cur = Some r"
  shows "firstStop live seen cur r"
proof (rule livingOpener.raw_induct [where P = firstStop, OF _ assms])
  fix f t s c y
  assume IH: "\<And>t s c y. f t s c = Some y \<Longrightarrow> firstStop t s c y"
    and eq: "(case c of None \<Rightarrow> Some c
      | Some i \<Rightarrow>
          if i \<noteq> [] \<and> t i = None
          then case s i of None \<Rightarrow> Some c
               | Some e \<Rightarrow> f t s (openedBy e)
          else Some c) = Some y"
  show "firstStop t s c y"
  proof (cases "walkContinues t s c")
    case False
    with eq have "y = c"
      by (auto simp: walkContinues_def split: option.splits if_splits)
    with False show ?thesis by (simp add: firstStop_here)
  next
    case True
    with eq have "f t s (nextOpener s c) = Some y"
      by (auto simp: walkContinues_def nextOpener_def split: option.splits if_splits)
    from IH [OF this] True show ?thesis by (rule firstStop_next [rotated])
  qed
qed

lemma livingOpener_iff_firstStop:
  "livingOpener live seen cur = Some r \<longleftrightarrow> firstStop live seen cur r"
  by (auto simp: firstStop_def livingOpener_chain dest: livingOpener_Some_firstStop)

text \<open>A self-opened id that is no longer live: the loop never exits.\<close>

lemma livingOpener_cycle:
  assumes "i \<noteq> []" "live i = None" "seen i = Some \<lparr>openedBy = Some i\<rparr>"
  shows "livingOpener live seen (Some i) = None"
proof (cases "livingOpener live seen (Some i)")
  case None
  then show ?thesis .
next
  case (Some r)
  then have "firstStop live seen (Some i) r" by (rule livingOpener_Some_firstStop)
  then obtain n where n: "r = openerChain seen (Some i) n" "\<not> walkContinues live seen r"
    unfolding firstStop_def by blast
  have "openerChain seen (Some i) k = Some i" for k
    using assms by (induction k) (simp_all add: nextOpener_def)
  with n assms show ?thesis by (simp add: walkContinues_def)
qed

text \<open>
  Claim C1, amended. For a new target announcing opener id \<open>oid\<close>, the loop returns \<open>r\<close>
  exactly when \<open>r\<close> is the first id on the chain \<open>oid\<close>, \<open>seenOpeners[oid]\<close>, ... at which the
  walk does not continue, where the walk continues at an id that is a non-empty string,
  not a live target and present in \<open>seenOpeners\<close>; so it stops at the first id that is
  live, absent from \<open>seenOpeners\<close>, undefined or the empty string. The new target's parent
  is that id's live target if the id is a non-empty string, and none otherwise (an id
  that is not live, undefined or empty). In particular, for non-empty ids \<open>a\<close> and \<open>b\<close>:
  if the target declares opener \<open>b\<close>, \<open>b\<close> was seen with opener \<open>a\<close> and is no longer live,
  and \<open>a\<close> is live, the parent is \<open>a\<close>'s target.
\<close>

theorem opener_walk_resolution:
  "(livingOpener live seen oid = Some r \<longleftrightarrow> firstStop live seen oid r) \<and>
   (firstStop live seen oid r \<longrightarrow> resolvedParent live seen oid = Some (parentOf live r)) \<and>
   (firstStop live seen oid r \<and> run s \<noteq> None \<and> targets s = live \<and> seenOpeners s = seen \<longrightarrow>
      (\<exists>s'. startSession_announced c tid oid s = Some s' \<and>
            targets s' tid = Some (NodeTarget tid oid (parentOf live r)))) \<and>
   (b \<noteq> [] \<and> a \<noteq> [] \<and> live b = None \<and> seen b = Some \<lparr>openedBy = Some a\<rparr> \<and> live a = Some ta \<longrightarrow>
      resolvedParent live seen (Some b) = Some (Some ta))"
proof (intro conjI impI)
  show "livingOpener live seen oid = Some r \<longleftrightarrow> firstStop live seen oid r"
    by (rule livingOpener_iff_firstStop)
next
  assume "firstStop live seen oid r"
  then have "livingOpener live seen oid = Some r"
    by (simp add: livingOpener_iff_firstStop)
  then show "resolvedParent live seen oid = Some (parentOf live r)"
    by (simp add: resolvedParent_def)
next
  assume "firstStop live seen oid r \<and> run s \<noteq> None \<and> targets s = live \<and> seenOpeners s = seen"
  then have "livingOpener (targets s) (seenOpeners s) oid = Some r" "run s \<noteq> None" "targets s = live"
    by (simp_all add: livingOpener_iff_firstStop)
  then show "\<exists>s'. startSession_announced c tid oid s = Some s' \<and>
            targets s' tid = Some (NodeTarget tid oid (parentOf live r))"
    by (auto simp: startSession_announced_def)
next
  assume h: "b \<noteq> [] \<and> a \<noteq> [] \<and> live b = None \<and> seen b = Some \<lparr>openedBy = Some a\<rparr> \<and> live a = Some ta"
  then have "walkContinues live seen (Some b)" by (simp add: walkContinues_def)
  then have "livingOpener live seen (Some b) = livingOpener live seen (Some a)"
    using h by (simp add: livingOpener_step nextOpener_def)
  also have "\<dots> = Some (Some a)"
    using h by (simp add: livingOpener_stop walkContinues_def)
  finally show "resolvedParent live seen (Some b) = Some (Some ta)"
    using h by (simp add: resolvedParent_def parentOf_def)
qed

theorem opener_walk_resolution_witness:
  "firstStop (targets sampleLauncher) (seenOpeners sampleLauncher) (Some ''B'') (Some ''A'') \<and>
   resolvedParent (targets sampleLauncher) (seenOpeners sampleLauncher) (Some ''B'')
     = Some (Some (NodeTarget ''A'' None None)) \<and>
   (\<exists>s'. startSession_announced 5 ''C'' (Some ''B'') sampleLauncher = Some s' \<and>
         targets s' ''C'' = Some (NodeTarget ''C'' (Some ''B'') (Some (NodeTarget ''A'' None None))))"
proof -
  have f: "firstStop (targets sampleLauncher) (seenOpeners sampleLauncher) (Some ''B'') (Some ''A'')"
    unfolding firstStop_def
    by (intro exI [of _ 1]) (simp add: sampleLauncher_def nextOpener_def walkContinues_def)
  with opener_walk_resolution
    [of "targets sampleLauncher" "seenOpeners sampleLauncher" "Some ''B''" "Some ''A''"
        sampleLauncher 5 "''C''" "''B''" "''A''" "NodeTarget ''A'' None None"]
  show ?thesis by (simp add: sampleLauncher_def parentOf_def)
qed

text \<open>
  Claim C1 as stated fails at the empty string: with \<open>seenOpeners = {'' \<mapsto> A}\<close> and \<open>A\<close>
  live, the stated walk goes from \<open>''\<close> (not live, present in \<open>seenOpeners\<close>) to \<open>A\<close> and
  parents the target to \<open>A\<close>; the code's loop guard is false at \<open>''\<close> and the target gets
  no parent.
\<close>

theorem opener_walk_counterexample:
  "walkContinues_spec [''A'' \<mapsto> NodeTarget ''A'' None None] ['''' \<mapsto> \<lparr>openedBy = Some ''A''\<rparr>] (Some '''') \<and>
   nextOpener ['''' \<mapsto> \<lparr>openedBy = Some ''A''\<rparr>] (Some '''') = Some ''A'' \<and>
   \<not> walkContinues_spec [''A'' \<mapsto> NodeTarget ''A'' None None] ['''' \<mapsto> \<lparr>openedBy = Some ''A''\<rparr>] (Some ''A'') \<and>
   [''A'' \<mapsto> NodeTarget ''A'' None None] ''A'' = Some (NodeTarget ''A'' None None) \<and>
   resolvedParent [''A'' \<mapsto> NodeTarget ''A'' None None] ['''' \<mapsto> \<lparr>openedBy = Some ''A''\<rparr>] (Some '''')
     = Some None"
  by (simp add: walkContinues_spec_def nextOpener_def resolvedParent_def parentOf_def
      livingOpener_stop walkContinues_def)

subsection \<open>Restart\<close>

lemma filter_none: "list_all P xs \<Longrightarrow> filter (\<lambda>c. \<not> P c) xs = []"
  by (induction xs) auto

text \<open>
  Claim C2. \<open>restart\<close> with no active run changes nothing. With a run and a program
  handle, its collaborator calls are, in order: the stop request, made when
  \<open>this.program\<close> is already cleared; the wait of at most 2000 ms for the connections
  tracked at that moment; if the timeout wins, the warning and the close of every
  connection still tracked; and, in either case, \<open>launchProgram\<close>. No connection is tracked
  afterwards, and the handle is the relaunched program's. With a run and no program
  handle, \<open>restart\<close> is the relaunch alone.
\<close>

theorem restart_sequence:
  "(run s = None \<longrightarrow> restart h newParams d s = s) \<and>
   (run s = Some r \<and> program s = Some p \<longrightarrow>
      calls (restart h newParams d s) =
        calls s @ [ProgramStop p None, AwaitDisconnects 2000 (serverConnections s)] @
        (if timeoutWins d (serverConnections s)
         then WarnCloseTimeout # map ConnectionClose (stragglers d (serverConnections s))
         else []) @
        [LaunchProgram (relaunchData h newParams r)] \<and>
      serverConnections (restart h newParams d s) = [] \<and>
      program (restart h newParams d s) = spawned h (relaunchData h newParams r)) \<and>
   (run s = Some r \<and> program s = None \<longrightarrow>
      restart h newParams d s = launchProgram h (relaunchData h newParams r) s)"
proof (intro conjI impI)
  assume "run s = None"
  then show "restart h newParams d s = s" by (simp add: restart_def)
next
  assume "run s = Some r \<and> program s = None"
  then show "restart h newParams d s = launchProgram h (relaunchData h newParams r) s"
    by (simp add: restart_def relaunchData_def)
next
  assume h: "run s = Some r \<and> program s = Some p"
  show "calls (restart h newParams d s) =
        calls s @ [ProgramStop p None, AwaitDisconnects 2000 (serverConnections s)] @
        (if timeoutWins d (serverConnections s)
         then WarnCloseTimeout # map ConnectionClose (stragglers d (serverConnections s))
         else []) @
        [LaunchProgram (relaunchData h newParams r)]"
    using h by (simp add: restart_def relaunchData_def timeoutWins_def stragglers_def
        Let_def list_all_iff)
  show "serverConnections (restart h newParams d s) = []"
    using h by (simp add: restart_def Let_def filter_none)
  show "program (restart h newParams d s) = spawned h (relaunchData h newParams r)"
    using h by (simp add: restart_def relaunchData_def Let_def)
qed

theorem restart_sequence_witness:
  "calls (restart sampleHost None (\<lambda>c. if c = 3 then Some 100 else None) sampleLauncher) =
     [ProgramStop 7 None, AwaitDisconnects 2000 [3, 4], WarnCloseTimeout, ConnectionClose 4,
      LaunchProgram (relaunchData sampleHost None sampleRun)] \<and>
   calls (restart sampleHost None (\<lambda>c. Some 100) sampleLauncher) =
     [ProgramStop 7 None, AwaitDisconnects 2000 [3, 4],
      LaunchProgram (relaunchData sampleHost None sampleRun)] \<and>
   restart sampleHost None (\<lambda>c. None) (newLauncher Map.empty) = newLauncher Map.empty \<and>
   restart sampleHost None (\<lambda>c. None) (sampleLauncher\<lparr>program := None\<rparr>) =
     launchProgram sampleHost (relaunchData sampleHost None sampleRun) (sampleLauncher\<lparr>program := None\<rparr>)"
  using restart_sequence
      [of sampleLauncher sampleHost None "\<lambda>c. if c = 3 then Some 100 else None" sampleRun 7]
    restart_sequence [of sampleLauncher sampleHost None "\<lambda>c. Some 100" sampleRun 7]
    restart_sequence [of "newLauncher Map.empty" sampleHost None "\<lambda>c. None"]
    restart_sequence [of "sampleLauncher\<lparr>program := None\<rparr>" sampleHost None "\<lambda>c. None" sampleRun]
  by (simp add: sampleLauncher_def newLauncher_def timeoutWins_def stragglers_def
      disconnectedWithin_def)

subsection \<open>The opener map is never pruned\<close>

lemma seenOpeners_stopServer [simp]: "seenOpeners (stopServer s) = seenOpeners s"
  by (simp add: stopServer_def Let_def split: option.splits sum.splits)

lemma seenOpeners_onProgramTerminated [simp]:
  "seenOpeners (onProgramTerminated result s) = seenOpeners s"
  by (simp add: onProgramTerminated_def)

lemma seenOpeners_terminate [simp]: "seenOpeners (terminate s) = seenOpeners s"
  by (simp add: terminate_def split: option.splits)

lemma seenOpeners_launch [simp]: "seenOpeners (snd (launch h ps ctx started s)) = seenOpeners s"
  by (simp add: launch_def Let_def split: option.splits sum.splits prod.splits)

lemma seenOpeners_restart [simp]: "seenOpeners (restart h newParams d s) = seenOpeners s"
  by (simp add: restart_def Let_def split: option.splits)

lemma seenOpeners_bootloaderFileOnce [simp]:
  "seenOpeners (snd (bootloaderFileOnce h wd binary s)) = seenOpeners s"
  by (simp add: bootloaderFileOnce_def split: option.splits prod.splits)

lemma seenOpeners_resolveEnvironment [simp]:
  "seenOpeners (snd (resolveEnvironment h f rd binary s)) = seenOpeners s"
proof -
  obtain r s1 where b: "bootloaderFileOnce h (cwd (params rd)) binary s = (r, s1)"
    by (cases "bootloaderFileOnce h (cwd (params rd)) binary s")
  with seenOpeners_bootloaderFileOnce [of h "cwd (params rd)" binary s]
  have "seenOpeners s1 = seenOpeners s" by simp
  with b show ?thesis
    by (auto simp: resolveEnvironment_def split: sum.splits)
qed

lemma seenOpeners_step_other:
  assumes "step h x s = Some s'" and "\<forall>c tid oid. x \<noteq> TargetAnnounced c tid oid"
  shows "seenOpeners s' = seenOpeners s"
  using assms
  by (cases x)
     (auto simp: dispose_launcher_def startSession_accept_def acquireTarget_def
        targetDisconnected_def connectionDisconnected_def attachedToWorker_def
        workerDisposed_def Let_def split: option.splits)

lemma seenOpeners_step_announced:
  assumes "step h (TargetAnnounced c tid oid) s = Some s'"
  shows "seenOpeners s' =
         (if run s = None then seenOpeners s else (seenOpeners s)(tid \<mapsto> \<lparr>openedBy = oid\<rparr>))"
  using assms by (auto simp: startSession_announced_def split: option.splits)

lemma dom_seenOpeners_step:
  assumes "step h x s = Some s'"
  shows "dom (seenOpeners s) \<subseteq> dom (seenOpeners s')"
proof (cases "\<exists>c tid oid. x = TargetAnnounced c tid oid")
  case True
  then obtain c tid oid where "x = TargetAnnounced c tid oid" by blast
  with assms seenOpeners_step_announced [of h c tid oid s s'] show ?thesis
    by (auto split: if_splits)
next
  case False
  with assms seenOpeners_step_other [of h x s s'] show ?thesis by simp
qed

lemma dom_seenOpeners_steps:
  "steps h xs s = Some s' \<Longrightarrow> dom (seenOpeners s) \<subseteq> dom (seenOpeners s')"
proof (induction xs arbitrary: s)
  case Nil
  then show ?case by simp
next
  case (Cons x xs)
  then obtain s1 where s1: "step h x s = Some s1" "steps h xs s1 = Some s'"
    by (auto split: option.splits)
  from dom_seenOpeners_step [OF s1(1)] Cons.IH [OF s1(2)] show ?case by blast
qed

lemma seenOpeners_steps_unannounced:
  "steps h xs s = Some s' \<Longrightarrow> \<forall>c oid. TargetAnnounced c tid oid \<notin> set xs \<Longrightarrow>
   seenOpeners s' tid = seenOpeners s tid"
proof (induction xs arbitrary: s)
  case Nil
  then show ?case by simp
next
  case (Cons x xs)
  then obtain s1 where s1: "step h x s = Some s1" "steps h xs s1 = Some s'"
    by (auto split: option.splits)
  from Cons.prems(2) have rest: "\<forall>c oid. TargetAnnounced c tid oid \<notin> set xs"
    and here: "\<forall>c oid. x \<noteq> TargetAnnounced c tid oid" by auto
  have "seenOpeners s1 tid = seenOpeners s tid"
  proof (cases "\<exists>c t oid. x = TargetAnnounced c t oid")
    case True
    then obtain c t oid where x: "x = TargetAnnounced c t oid" by blast
    with here have "t \<noteq> tid" by auto
    with s1(1) x seenOpeners_step_announced [of h c t oid s s1] show ?thesis
      by (auto split: if_splits)
  next
    case False
    with s1(1) seenOpeners_step_other [of h x s s1] show ?thesis by simp
  qed
  with Cons.IH [OF s1(2) rest] show ?case by simp
qed

text \<open>
  Claim C10. A handshake that completes while a run is active sets the entry of the new
  target's id in \<open>seenOpeners\<close> to its declared opener id. Every other operation of the
  launcher (target and connection disconnect, worker attach and removal, terminate,
  program exit, dispose, launch, restart, building the environment) leaves \<open>seenOpeners\<close>
  as it is. So over any sequence of operations no id leaves \<open>seenOpeners\<close>, and the entry
  of an id that is not announced again keeps its value.
\<close>

theorem seenOpeners_never_pruned:
  "(step h (TargetAnnounced c tid oid) s = Some s' \<and> run s \<noteq> None \<longrightarrow>
      seenOpeners s' = (seenOpeners s)(tid \<mapsto> \<lparr>openedBy = oid\<rparr>)) \<and>
   (step h x s = Some s' \<and> (\<forall>c tid oid. x \<noteq> TargetAnnounced c tid oid) \<longrightarrow>
      seenOpeners s' = seenOpeners s) \<and>
   (steps h xs s = Some s' \<longrightarrow> dom (seenOpeners s) \<subseteq> dom (seenOpeners s')) \<and>
   (steps h xs s = Some s' \<and> (\<forall>c oid. TargetAnnounced c k oid \<notin> set xs) \<longrightarrow>
      seenOpeners s' k = seenOpeners s k)"
  using seenOpeners_step_announced [of h c tid oid s s'] seenOpeners_step_other [of h x s s']
    dom_seenOpeners_steps [of h xs s s'] seenOpeners_steps_unannounced [of h xs s s' k]
  by auto

lemma sampleLauncher_walk:
  "livingOpener (targets sampleLauncher) (seenOpeners sampleLauncher) (Some ''B'') = Some (Some ''A'')"
proof -
  have "walkContinues (targets sampleLauncher) (seenOpeners sampleLauncher) (Some ''B'')"
    by (simp add: walkContinues_def sampleLauncher_def)
  moreover have "\<not> walkContinues (targets sampleLauncher) (seenOpeners sampleLauncher) (Some ''A'')"
    by (simp add: walkContinues_def sampleLauncher_def)
  moreover have "nextOpener (seenOpeners sampleLauncher) (Some ''B'') = Some ''A''"
    by (simp add: nextOpener_def sampleLauncher_def)
  ultimately show ?thesis by (simp add: livingOpener_step livingOpener_stop)
qed

theorem seenOpeners_never_pruned_witness:
  "\<exists>s1 s'. step sampleHost (TargetAnnounced 5 ''C'' (Some ''B'')) sampleLauncher = Some s1 \<and>
     seenOpeners s1 = (seenOpeners sampleLauncher)(''C'' \<mapsto> \<lparr>openedBy = Some ''B''\<rparr>) \<and>
     steps sampleHost
       [TargetDisconnected ''C'', Terminate, Restart None (\<lambda>c. None), Dispose,
        Launch sampleConfig (context sampleRun) (Inr (2, ''/tmp/node-cdp-2.sock''))] s1 = Some s' \<and>
     seenOpeners s' ''C'' = Some \<lparr>openedBy = Some ''B''\<rparr> \<and>
     dom (seenOpeners s1) \<subseteq> dom (seenOpeners s')"
proof -
  have r: "run sampleLauncher \<noteq> None" by (simp add: sampleLauncher_def)
  then obtain s1 where
    s1: "step sampleHost (TargetAnnounced 5 ''C'' (Some ''B'')) sampleLauncher = Some s1"
    by (auto simp: startSession_announced_def sampleLauncher_walk)
  obtain s' where s': "steps sampleHost
       [TargetDisconnected ''C'', Terminate, Restart None (\<lambda>c. None), Dispose,
        Launch sampleConfig (context sampleRun) (Inr (2, ''/tmp/node-cdp-2.sock''))] s1 = Some s'"
    by simp
  note announced = seenOpeners_never_pruned
    [where h = sampleHost and c = 5 and tid = "''C''" and oid = "Some ''B''"
       and s = sampleLauncher and s' = s1, THEN conjunct1]
  note later = seenOpeners_never_pruned
    [where h = sampleHost and s = s1 and s' = s' and k = "''C''" and xs =
      "[TargetDisconnected ''C'', Terminate, Restart None (\<lambda>c. None), Dispose,
        Launch sampleConfig (context sampleRun) (Inr (2, ''/tmp/node-cdp-2.sock''))]",
     THEN conjunct2, THEN conjunct2]
  from announced s1 r
  have a: "seenOpeners s1 = (seenOpeners sampleLauncher)(''C'' \<mapsto> \<lparr>openedBy = Some ''B''\<rparr>)"
    by simp
  from later s' have b: "dom (seenOpeners s1) \<subseteq> dom (seenOpeners s')"
    and c: "seenOpeners s' ''C'' = seenOpeners s1 ''C''"
    by simp_all
  from a c have "seenOpeners s' ''C'' = Some \<lparr>openedBy = Some ''B''\<rparr>" by simp
  with s1 s' a b show ?thesis by blast
qed

subsection \<open>Bootloader file\<close>

text \<open>
  Claim C3. \<open>getBootloaderFile\<close> returns, by the first case that applies: the installed
  path as it is when it has no space; the path in double quotes when the binary has
  \<open>UseSpacesInRequirePath\<close>; the path of a \<open>require(...)\<close> wrapper written into the OS
  temporary directory when that directory has no space or no working directory is
  known; otherwise \<open>./.vscode-js-debug-bootloader.js\<close>, the wrapper being written under
  that name in the working directory, with a disposer that deletes the written file.
  When a write fails the call fails with it: nothing further is tried.
\<close>

theorem bootloader_file_tiers:
  "(\<not> includesSpace (targetPath h) \<longrightarrow>
      getBootloaderFile h wd b fs =
        (Inr \<lparr>interpolatedPath = targetPath h, dispose = NoDispose\<rparr>, fs)) \<and>
   (includesSpace (targetPath h) \<and> has b UseSpacesInRequirePath True \<longrightarrow>
      getBootloaderFile h wd b fs =
        (Inr \<lparr>interpolatedPath = [CHR 0x22] @ targetPath h @ [CHR 0x22], dispose = NoDispose\<rparr>, fs)) \<and>
   (includesSpace (targetPath h) \<and> \<not> has b UseSpacesInRequirePath True \<and>
    (\<not> includesSpace (tmpdir h) \<or> \<not> truthy wd) \<and>
    tmpPath = pathJoin h (tmpdir h) ''vscode-js-debug-bootloader.js'' \<longrightarrow>
      getBootloaderFile h wd b fs =
        (if writeOk h tmpPath
         then (Inr \<lparr>interpolatedPath = tmpPath, dispose = NoDispose\<rparr>,
               fs(tmpPath \<mapsto> ''require('' @ jsonStringify h (targetPath h) @ '')''))
         else (Inl (WriteFileFailed tmpPath), fs))) \<and>
   (includesSpace (targetPath h) \<and> \<not> has b UseSpacesInRequirePath True \<and>
    includesSpace (tmpdir h) \<and> truthy wd \<and>
    nearPath = pathJoin h (the wd) ''.vscode-js-debug-bootloader.js'' \<longrightarrow>
      getBootloaderFile h wd b fs =
        (if writeOk h nearPath
         then (Inr \<lparr>interpolatedPath = ''./.vscode-js-debug-bootloader.js'', dispose = Unlink nearPath\<rparr>,
               fs(nearPath \<mapsto> ''require('' @ jsonStringify h (targetPath h) @ '')''))
         else (Inl (WriteFileFailed nearPath), fs)) \<and>
      runDispose (Unlink nearPath) (fs(nearPath \<mapsto> ''require('' @ jsonStringify h (targetPath h) @ '')''))
        nearPath = None)"
  by (simp add: getBootloaderFile_def writeFile_def bootloaderContents_def nearFilename_def
      runDispose_def Let_def)

theorem bootloader_file_tiers_witness:
  "getBootloaderFile sampleHost (Some ''/work dir'') (NodeBinary ''node'' (Some (Semver 10 0 0))) Map.empty =
     (Inr \<lparr>interpolatedPath = ''/ext/bootloader.js'', dispose = NoDispose\<rparr>, Map.empty) \<and>
   getBootloaderFile spacedHost (Some ''/work dir'') (NodeBinary ''node'' (Some (Semver 12 0 0))) Map.empty =
     (Inr \<lparr>interpolatedPath = [CHR 0x22] @ ''/my ext/bootloader.js'' @ [CHR 0x22], dispose = NoDispose\<rparr>,
      Map.empty) \<and>
   getBootloaderFile spacedHost (Some ''/work dir'') (NodeBinary ''node'' (Some (Semver 10 0 0))) Map.empty =
     (Inr \<lparr>interpolatedPath = ''/tmp/vscode-js-debug-bootloader.js'', dispose = NoDispose\<rparr>,
      [''/tmp/vscode-js-debug-bootloader.js'' \<mapsto>
         ''require('' @ [CHR 0x22] @ ''/my ext/bootloader.js'' @ [CHR 0x22] @ '')'']) \<and>
   getBootloaderFile (spacedHost\<lparr>tmpdir := ''/tmp dir''\<rparr>) (Some ''/work dir'')
       (NodeBinary ''node'' (Some (Semver 10 0 0))) Map.empty =
     (Inr \<lparr>interpolatedPath = ''./.vscode-js-debug-bootloader.js'',
           dispose = Unlink ''/work dir/.vscode-js-debug-bootloader.js''\<rparr>,
      [''/work dir/.vscode-js-debug-bootloader.js'' \<mapsto>
         ''require('' @ [CHR 0x22] @ ''/my ext/bootloader.js'' @ [CHR 0x22] @ '')'']) \<and>
   getBootloaderFile (spacedHost\<lparr>tmpdir := ''/tmp dir'', writeOk := (\<lambda>p. False)\<rparr>) (Some ''/work dir'')
       (NodeBinary ''node'' (Some (Semver 10 0 0))) Map.empty =
     (Inl (WriteFileFailed ''/work dir/.vscode-js-debug-bootloader.js''), Map.empty)"
  using bootloader_file_tiers
      [where h = sampleHost and wd = "Some ''/work dir''"
         and b = "NodeBinary ''node'' (Some (Semver 10 0 0))" and fs = Map.empty]
    bootloader_file_tiers
      [where h = spacedHost and wd = "Some ''/work dir''"
         and b = "NodeBinary ''node'' (Some (Semver 12 0 0))" and fs = Map.empty]
    bootloader_file_tiers
      [where h = spacedHost and wd = "Some ''/work dir''"
         and b = "NodeBinary ''node'' (Some (Semver 10 0 0))" and fs = Map.empty
         and tmpPath = "''/tmp/vscode-js-debug-bootloader.js''"]
    bootloader_file_tiers
      [where h = "spacedHost\<lparr>tmpdir := ''/tmp dir''\<rparr>" and wd = "Some ''/work dir''"
         and b = "NodeBinary ''node'' (Some (Semver 10 0 0))" and fs = Map.empty
         and nearPath = "''/work dir/.vscode-js-debug-bootloader.js''"]
    bootloader_file_tiers
      [where h = "spacedHost\<lparr>tmpdir := ''/tmp dir'', writeOk := (\<lambda>p. False)\<rparr>"
         and wd = "Some ''/work dir''"
         and b = "NodeBinary ''node'' (Some (Semver 10 0 0))" and fs = Map.empty
         and nearPath = "''/work dir/.vscode-js-debug-bootloader.js''"]
  by (simp add: sampleHost_def spacedHost_def includesSpace_def has_def hasIn_def NodeBinary_def
      Semver_def semver_gte_def semver_lt_def truthy_def)

subsection \<open>Runtime options\<close>

lemma lookup_merge_NODE_OPTIONS:
  "lookup (merge baseEnv [''NODE_OPTIONS'' \<mapsto> Some x, ''VSCODE_INSPECTOR_OPTIONS'' \<mapsto> y,
      ''ELECTRON_RUN_AS_NODE'' \<mapsto> z]) ''NODE_OPTIONS'' = Some x"
  by (simp add: lookup_def merge_def map_add_def)

lemma nodeOptions_parts:
  "nodeOptions p baseEnvOpts globalOpts =
     '' --require '' @ p @ '' '' @
     (if truthy baseEnvOpts then '' '' @ the baseEnvOpts @ '' '' else []) @
     (if truthy globalOpts then '' '' @ the globalOpts else [])"
  by (simp add: nodeOptions_def Let_def)

text \<open>
  Claim C9. When \<open>resolveEnvironment\<close> succeeds, the \<open>NODE_OPTIONS\<close> of the environment it
  returns is \<open>--require\<close> with the bootloader's path, then the \<open>NODE_OPTIONS\<close> of the
  configured environment (env file and explicit \<open>env\<close>) if it has a non-empty one, then
  the \<open>NODE_OPTIONS\<close> of the process environment if it has a non-empty one, in that order.
\<close>

theorem node_options_order:
  "resolveEnvironment h f rd b s = (Inr e, s') \<longrightarrow>
     (\<exists>baseEnv bootloader.
        getConfiguredEnvironment h (files s) (params rd) = Inr baseEnv \<and>
        bootloaderFileOnce h (cwd (params rd)) b s = (Inr bootloader, s') \<and>
        lookup e ''NODE_OPTIONS'' =
          Some ('' --require '' @ interpolatedPath bootloader @ '' '' @
                (if truthy (lookup baseEnv ''NODE_OPTIONS'')
                 then '' '' @ the (lookup baseEnv ''NODE_OPTIONS'') @ '' '' else []) @
                (if truthy (lookup (processEnv h) ''NODE_OPTIONS'')
                 then '' '' @ the (lookup (processEnv h) ''NODE_OPTIONS'') else [])))"
proof
  assume a: "resolveEnvironment h f rd b s = (Inr e, s')"
  then obtain baseEnv where be: "getConfiguredEnvironment h (files s) (params rd) = Inr baseEnv"
    by (auto simp: resolveEnvironment_def split: sum.splits)
  obtain r s1 where bf: "bootloaderFileOnce h (cwd (params rd)) b s = (r, s1)"
    by (cases "bootloaderFileOnce h (cwd (params rd)) b s")
  with a be obtain bootloader where bl: "r = Inr bootloader" "s1 = s'"
    by (auto simp: resolveEnvironment_def split: sum.splits)
  from a be bf bl have
    "e = merge baseEnv
           [''NODE_OPTIONS'' \<mapsto>
              Some (nodeOptions (interpolatedPath bootloader) (lookup baseEnv ''NODE_OPTIONS'')
                      (lookup (processEnv h) ''NODE_OPTIONS'')),
            ''VSCODE_INSPECTOR_OPTIONS'' \<mapsto> Some (inspectorOptions h (f (bootloaderInfo h rd))),
            ''ELECTRON_RUN_AS_NODE'' \<mapsto> None]"
    by (simp add: resolveEnvironment_def)
  then have "lookup e ''NODE_OPTIONS'' =
      Some (nodeOptions (interpolatedPath bootloader) (lookup baseEnv ''NODE_OPTIONS'')
              (lookup (processEnv h) ''NODE_OPTIONS''))"
    by (simp only: lookup_merge_NODE_OPTIONS)
  with be bf bl show "\<exists>baseEnv bootloader.
        getConfiguredEnvironment h (files s) (params rd) = Inr baseEnv \<and>
        bootloaderFileOnce h (cwd (params rd)) b s = (Inr bootloader, s') \<and>
        lookup e ''NODE_OPTIONS'' =
          Some ('' --require '' @ interpolatedPath bootloader @ '' '' @
                (if truthy (lookup baseEnv ''NODE_OPTIONS'')
                 then '' '' @ the (lookup baseEnv ''NODE_OPTIONS'') @ '' '' else []) @
                (if truthy (lookup (processEnv h) ''NODE_OPTIONS'')
                 then '' '' @ the (lookup (processEnv h) ''NODE_OPTIONS'') else []))"
    by (simp only: nodeOptions_parts) blast
qed


lemma sample_baseEnv:
  "getConfiguredEnvironment sampleHost (files sampleLauncher) (params sampleRun) =
     Inr [''NODE_OPTIONS'' \<mapsto> Some ''--inspect'']"
  by (simp add: getConfiguredEnvironment_def sampleRun_def sampleConfig_def truthy_def merge_def)

lemma sample_bootloader:
  "bootloaderFileOnce sampleHost (cwd (params sampleRun)) b sampleLauncher =
     (Inr \<lparr>interpolatedPath = ''/ext/bootloader.js'', dispose = NoDispose\<rparr>,
      sampleLauncher\<lparr>bootloaderFile :=
         Some (Inr \<lparr>interpolatedPath = ''/ext/bootloader.js'', dispose = NoDispose\<rparr>),
         files := Map.empty\<rparr>)"
  by (simp add: bootloaderFileOnce_def getBootloaderFile_def sampleLauncher_def sampleHost_def
      includesSpace_def)

theorem node_options_order_witness:
  "\<exists>e s'. resolveEnvironment sampleHost id sampleRun (NodeBinary ''node'' (Some (Semver 12 0 0)))
            sampleLauncher = (Inr e, s') \<and>
     lookup e ''NODE_OPTIONS'' =
       Some '' --require /ext/bootloader.js  --inspect  --max-old-space-size=4096''"
proof -
  obtain r s' where rs: "resolveEnvironment sampleHost id sampleRun
      (NodeBinary ''node'' (Some (Semver 12 0 0))) sampleLauncher = (r, s')"
    by (cases "resolveEnvironment sampleHost id sampleRun
      (NodeBinary ''node'' (Some (Semver 12 0 0))) sampleLauncher")
  then obtain e where e: "r = Inr e"
    by (auto simp: resolveEnvironment_def sample_baseEnv sample_bootloader)
  have p: "lookup (processEnv sampleHost) ''NODE_OPTIONS'' = Some ''--max-old-space-size=4096''"
    by (simp add: sampleHost_def lookup_def)
  have q: "lookup [''NODE_OPTIONS'' \<mapsto> Some ''--inspect''] ''NODE_OPTIONS'' = Some ''--inspect''"
    by (simp add: lookup_def)
  from node_options_order
    [of sampleHost id sampleRun "NodeBinary ''node'' (Some (Semver 12 0 0))" sampleLauncher e s']
    rs e
  have "lookup e ''NODE_OPTIONS'' =
       Some '' --require /ext/bootloader.js  --inspect  --max-old-space-size=4096''"
    by (simp add: sample_baseEnv sample_bootloader p q truthy_def)
  with rs e show ?thesis by blast
qed

subsection \<open>Telemetry\<close>

lemma gather_retry:
  assumes "retryable evaluate programAt k" "k < 8"
  shows "gatherTelemetryFromCdp evaluate programAt k done =
         gatherTelemetryFromCdp evaluate programAt (Suc k) (done @ retryCalls k)"
  using assms
  by (subst gatherTelemetryFromCdp.simps)
     (auto simp: retryable_def retryCalls_def Let_def split: option.splits)

lemma gather_retries:
  assumes "\<forall>i<n. retryable evaluate programAt i" "n \<le> 8"
  shows "gatherTelemetryFromCdp evaluate programAt 0 [] =
         gatherTelemetryFromCdp evaluate programAt n (retriesUpTo n)"
  using assms
proof (induction n)
  case 0
  then show ?case by (simp add: retriesUpTo_def)
next
  case (Suc n)
  then have "gatherTelemetryFromCdp evaluate programAt 0 [] =
             gatherTelemetryFromCdp evaluate programAt n (retriesUpTo n)" by simp
  also have "\<dots> = gatherTelemetryFromCdp evaluate programAt (Suc n) (retriesUpTo n @ retryCalls n)"
    using Suc.prems by (intro gather_retry) auto
  finally show ?case by (simp add: retriesUpTo_def)
qed

lemma gather_final:
  assumes "n < 8"
  shows "gatherTelemetryFromCdp evaluate programAt n done =
     (case programAt n of
        None \<Rightarrow> (None, done @ [RuntimeEvaluate n])
      | Some prog \<Rightarrow>
          (case evaluate n of
             None \<Rightarrow> (None, done @ [RuntimeEvaluate n, LogUndefinedResult])
           | Some v \<Rightarrow>
               if \<not> js_truthy v then (None, done @ [RuntimeEvaluate n, LogUndefinedResult])
               else if \<not> typeofObject v then
                 gatherTelemetryFromCdp evaluate programAt (Suc n)
                   (done @ [RuntimeEvaluate n, LogWillRetry, Delay (50 * 2 ^ n)])
               else (case v of
                       JObject t \<Rightarrow>
                         (Some t, done @ [RuntimeEvaluate n,
                            TelemetryReport (nodeVersion t) (architecture t), GotTelemetry prog t])
                     | _ \<Rightarrow> (None, done @ [RuntimeEvaluate n]))))"
  using assms
  by (subst gatherTelemetryFromCdp.simps) (simp add: Let_def split: option.splits js_value.splits)

text \<open>
  Claim C8. An attempt is followed by a retry only if the program handle is still set
  and the evaluation gave a truthy value that is not an object; a retrying attempt
  \<open>k\<close> logs and waits \<open>50 * 2 ^ k\<close> milliseconds. If all 8 attempts retry, the result is
  no telemetry. If the attempts before \<open>n < 8\<close> retry, then at attempt \<open>n\<close>: a cleared
  program handle gives no telemetry with no call after the evaluation; an object is
  reported to the telemetry reporter once, handed to the program once, and returned;
  a missing or falsy result gives no telemetry after one error log.
\<close>

theorem telemetry_retry_protocol:
  "((\<forall>i<8. retryable evaluate programAt i) \<longrightarrow>
      gatherTelemetryFromCdp evaluate programAt 0 [] = (None, retriesUpTo 8)) \<and>
   (n < 8 \<and> (\<forall>i<n. retryable evaluate programAt i) \<longrightarrow>
      (programAt n = None \<longrightarrow>
         gatherTelemetryFromCdp evaluate programAt 0 [] =
           (None, retriesUpTo n @ [RuntimeEvaluate n])) \<and>
      (programAt n = Some prog \<and> evaluate n = Some (JObject t) \<longrightarrow>
         gatherTelemetryFromCdp evaluate programAt 0 [] =
           (Some t, retriesUpTo n @
              [RuntimeEvaluate n, TelemetryReport (nodeVersion t) (architecture t),
               GotTelemetry prog t])) \<and>
      (programAt n = Some prog \<and> (evaluate n = None \<or> (\<exists>v. evaluate n = Some v \<and> \<not> js_truthy v)) \<longrightarrow>
         gatherTelemetryFromCdp evaluate programAt 0 [] =
           (None, retriesUpTo n @ [RuntimeEvaluate n, LogUndefinedResult]))) \<and>
   (retryable evaluate programAt n \<longleftrightarrow>
      programAt n \<noteq> None \<and> (\<exists>v. evaluate n = Some v \<and> js_truthy v \<and> \<not> typeofObject v)) \<and>
   retryCalls n = [RuntimeEvaluate n, LogWillRetry, Delay (50 * 2 ^ n)] \<and>
   retriesUpTo (Suc n) = retriesUpTo n @ retryCalls n"
proof (intro conjI impI)
  assume "\<forall>i<8. retryable evaluate programAt i"
  then have "gatherTelemetryFromCdp evaluate programAt 0 [] =
      gatherTelemetryFromCdp evaluate programAt 8 (retriesUpTo 8)"
    by (intro gather_retries) auto
  then show "gatherTelemetryFromCdp evaluate programAt 0 [] = (None, retriesUpTo 8)"
    by (subst (asm) (2) gatherTelemetryFromCdp.simps) simp
next
  assume a: "n < 8 \<and> (\<forall>i<n. retryable evaluate programAt i)"
  then have g: "gatherTelemetryFromCdp evaluate programAt 0 [] =
      gatherTelemetryFromCdp evaluate programAt n (retriesUpTo n)"
    by (intro gather_retries) auto
  { assume "programAt n = None"
    with a g show "gatherTelemetryFromCdp evaluate programAt 0 [] =
           (None, retriesUpTo n @ [RuntimeEvaluate n])"
      by (simp add: gather_final) }
  { assume "programAt n = Some prog \<and> evaluate n = Some (JObject t)"
    with a g show "gatherTelemetryFromCdp evaluate programAt 0 [] =
           (Some t, retriesUpTo n @
              [RuntimeEvaluate n, TelemetryReport (nodeVersion t) (architecture t),
               GotTelemetry prog t])"
      by (simp add: gather_final) }
  { assume "programAt n = Some prog \<and> (evaluate n = None \<or> (\<exists>v. evaluate n = Some v \<and> \<not> js_truthy v))"
    with a g show "gatherTelemetryFromCdp evaluate programAt 0 [] =
           (None, retriesUpTo n @ [RuntimeEvaluate n, LogUndefinedResult])"
      by (auto simp: gather_final) }
next
  show "retryable evaluate programAt n \<longleftrightarrow>
      programAt n \<noteq> None \<and> (\<exists>v. evaluate n = Some v \<and> js_truthy v \<and> \<not> typeofObject v)"
    by (auto simp: retryable_def split: option.splits)
next
  show "retryCalls n = [RuntimeEvaluate n, LogWillRetry, Delay (50 * 2 ^ n)]"
    by (simp add: retryCalls_def)
next
  show "retriesUpTo (Suc n) = retriesUpTo n @ retryCalls n"
    by (simp add: retriesUpTo_def)
qed

lemma upt8: "[0..<8] = [0, 1, 2, 3, 4, 5, 6, 7::nat]"
  by (simp add: upt_rec)

lemma retriesUpTo_8: "retriesUpTo 8 =
  [RuntimeEvaluate 0, LogWillRetry, Delay 50, RuntimeEvaluate 1, LogWillRetry, Delay 100,
   RuntimeEvaluate 2, LogWillRetry, Delay 200, RuntimeEvaluate 3, LogWillRetry, Delay 400,
   RuntimeEvaluate 4, LogWillRetry, Delay 800, RuntimeEvaluate 5, LogWillRetry, Delay 1600,
   RuntimeEvaluate 6, LogWillRetry, Delay 3200, RuntimeEvaluate 7, LogWillRetry, Delay 6400]"
  by (simp add: retriesUpTo_def retryCalls_def upt8)

lemma upt2: "[0..<2] = [0, 1::nat]"
  by (simp add: upt_rec)

lemma retriesUpTo_2: "retriesUpTo 2 = [RuntimeEvaluate 0, LogWillRetry, Delay 50, RuntimeEvaluate 1, LogWillRetry, Delay 100]"
  by (simp add: retriesUpTo_def retryCalls_def upt2)


theorem telemetry_retry_protocol_witness:
  "gatherTelemetryFromCdp (\<lambda>k. Some (JString ''process not defined'')) (\<lambda>k. Some 7) 0 [] =
     (None,
      [RuntimeEvaluate 0, LogWillRetry, Delay 50, RuntimeEvaluate 1, LogWillRetry, Delay 100,
       RuntimeEvaluate 2, LogWillRetry, Delay 200, RuntimeEvaluate 3, LogWillRetry, Delay 400,
       RuntimeEvaluate 4, LogWillRetry, Delay 800, RuntimeEvaluate 5, LogWillRetry, Delay 1600,
       RuntimeEvaluate 6, LogWillRetry, Delay 3200, RuntimeEvaluate 7, LogWillRetry, Delay 6400]) \<and>
   gatherTelemetryFromCdp
     (\<lambda>k. if k < 2 then Some (JString ''process not defined'') else Some (JObject sampleTelemetry))
     (\<lambda>k. Some 7) 0 [] =
     (Some sampleTelemetry,
      [RuntimeEvaluate 0, LogWillRetry, Delay 50, RuntimeEvaluate 1, LogWillRetry, Delay 100,
       RuntimeEvaluate 2, TelemetryReport ''v12.8.0'' ''x64'', GotTelemetry 7 sampleTelemetry]) \<and>
   gatherTelemetryFromCdp (\<lambda>k. Some (JString ''process not defined''))
     (\<lambda>k. if k < 2 then Some 7 else None) 0 [] =
     (None,
      [RuntimeEvaluate 0, LogWillRetry, Delay 50, RuntimeEvaluate 1, LogWillRetry, Delay 100,
       RuntimeEvaluate 2]) \<and>
   gatherTelemetryFromCdp (\<lambda>k. if k < 2 then Some (JString ''process not defined'') else Some JUndefined)
     (\<lambda>k. Some 7) 0 [] =
     (None,
      [RuntimeEvaluate 0, LogWillRetry, Delay 50, RuntimeEvaluate 1, LogWillRetry, Delay 100,
       RuntimeEvaluate 2, LogUndefinedResult])"
proof (intro conjI)
  have "\<forall>i<8. retryable (\<lambda>k. Some (JString ''process not defined'')) (\<lambda>k. Some 7) i"
    by (simp add: retryable_def)
  with telemetry_retry_protocol
      [of "\<lambda>k. Some (JString ''process not defined'')" "\<lambda>k. Some 7" 0]
  show "gatherTelemetryFromCdp (\<lambda>k. Some (JString ''process not defined'')) (\<lambda>k. Some 7) 0 [] =
     (None,
      [RuntimeEvaluate 0, LogWillRetry, Delay 50, RuntimeEvaluate 1, LogWillRetry, Delay 100,
       RuntimeEvaluate 2, LogWillRetry, Delay 200, RuntimeEvaluate 3, LogWillRetry, Delay 400,
       RuntimeEvaluate 4, LogWillRetry, Delay 800, RuntimeEvaluate 5, LogWillRetry, Delay 1600,
       RuntimeEvaluate 6, LogWillRetry, Delay 3200, RuntimeEvaluate 7, LogWillRetry, Delay 6400])"
    by (simp only: retriesUpTo_8)
next
  have "\<forall>i<2. retryable
      (\<lambda>k. if k < 2 then Some (JString ''process not defined'') else Some (JObject sampleTelemetry))
      (\<lambda>k. Some 7) i"
    by (simp add: retryable_def)
  with telemetry_retry_protocol
      [of "\<lambda>k. if k < 2 then Some (JString ''process not defined'') else Some (JObject sampleTelemetry)"
          "\<lambda>k. Some 7" 2 7 sampleTelemetry]
  show "gatherTelemetryFromCdp
     (\<lambda>k. if k < 2 then Some (JString ''process not defined'') else Some (JObject sampleTelemetry))
     (\<lambda>k. Some 7) 0 [] =
     (Some sampleTelemetry,
      [RuntimeEvaluate 0, LogWillRetry, Delay 50, RuntimeEvaluate 1, LogWillRetry, Delay 100,
       RuntimeEvaluate 2, TelemetryReport ''v12.8.0'' ''x64'', GotTelemetry 7 sampleTelemetry])"
    by (simp add: retriesUpTo_2 sampleTelemetry_def)
next
  have "\<forall>i<2. retryable (\<lambda>k. Some (JString ''process not defined''))
      (\<lambda>k. if k < 2 then Some 7 else None) i"
    by (simp add: retryable_def)
  with telemetry_retry_protocol
      [of "\<lambda>k. Some (JString ''process not defined'')" "\<lambda>k. if k < 2 then Some 7 else None" 2]
  show "gatherTelemetryFromCdp (\<lambda>k. Some (JString ''process not defined''))
     (\<lambda>k. if k < 2 then Some 7 else None) 0 [] =
     (None,
      [RuntimeEvaluate 0, LogWillRetry, Delay 50, RuntimeEvaluate 1, LogWillRetry, Delay 100,
       RuntimeEvaluate 2])"
    by (simp add: retriesUpTo_2)
next
  have "\<forall>i<2. retryable
      (\<lambda>k. if k < 2 then Some (JString ''process not defined'') else Some JUndefined)
      (\<lambda>k. Some 7) i"
    by (simp add: retryable_def)
  with telemetry_retry_protocol
      [of "\<lambda>k. if k < 2 then Some (JString ''process not defined'') else Some JUndefined"
          "\<lambda>k. Some 7" 2 7]
  show "gatherTelemetryFromCdp (\<lambda>k. if k < 2 then Some (JString ''process not defined'') else Some JUndefined)
     (\<lambda>k. Some 7) 0 [] =
     (None,
      [RuntimeEvaluate 0, LogWillRetry, Delay 50, RuntimeEvaluate 1, LogWillRetry, Delay 100,
       RuntimeEvaluate 2, LogUndefinedResult])"
    by (simp add: retriesUpTo_2)
qed

section \<open>Theorems: the binary resolver\<close>

lemma semver_lt_trans: "semver_lt a b \<Longrightarrow> semver_lt b c \<Longrightarrow> semver_lt a c"
  by (auto simp: semver_lt_def)

lemma semver_gte_mono: "semver_gte a t \<Longrightarrow> semver_lt a b \<Longrightarrow> semver_gte b t"
  unfolding semver_gte_def using semver_lt_trans by blast

lemma hasIn_mono:
  "semver_lt a b \<Longrightarrow> hasIn table (NodeBinary p (Some a)) c d \<Longrightarrow>
   hasIn table (NodeBinary p' (Some b)) c d'"
  by (auto simp: hasIn_def NodeBinary_def intro: semver_gte_mono)

text \<open>
  Claim C4. For every capability and precise versions \<open>a < b\<close>, a binary of version \<open>a\<close>
  that has the capability implies a binary of version \<open>b\<close> has it, for the modelled
  table and for any other table; a 12.0.0 binary has \<open>UseSpacesInRequirePath\<close> and not
  \<open>UseInspectPublishUid\<close>, a 12.8.0 binary has both.
\<close>

theorem capability_monotone:
  "(semver_lt a b \<and> has (NodeBinary p (Some a)) c d \<longrightarrow> has (NodeBinary p' (Some b)) c d') \<and>
   (semver_lt a b \<and> hasIn table (NodeBinary p (Some a)) c d \<longrightarrow>
      hasIn table (NodeBinary p' (Some b)) c d') \<and>
   has (NodeBinary p (Some (Semver 12 0 0))) UseSpacesInRequirePath d \<and>
   \<not> has (NodeBinary p (Some (Semver 12 0 0))) UseInspectPublishUid d \<and>
   has (NodeBinary p (Some (Semver 12 8 0))) UseSpacesInRequirePath d \<and>
   has (NodeBinary p (Some (Semver 12 8 0))) UseInspectPublishUid d"
proof (intro conjI impI)
  assume "semver_lt a b \<and> has (NodeBinary p (Some a)) c d"
  then show "has (NodeBinary p' (Some b)) c d'"
    unfolding has_def using hasIn_mono by blast
next
  assume "semver_lt a b \<and> hasIn table (NodeBinary p (Some a)) c d"
  then show "hasIn table (NodeBinary p' (Some b)) c d'"
    using hasIn_mono by blast
qed (simp_all add: has_def hasIn_def NodeBinary_def Semver_def semver_gte_def semver_lt_def)

theorem capability_monotone_witness:
  "semver_lt (Semver 12 0 0) (Semver 12 8 0) \<and>
   has (NodeBinary ''node'' (Some (Semver 12 0 0))) UseSpacesInRequirePath True \<and>
   has (NodeBinary ''node'' (Some (Semver 12 8 0))) UseSpacesInRequirePath False"
  using capability_monotone
    [of "Semver 12 0 0" "Semver 12 8 0" "''node''" UseSpacesInRequirePath True "''node''" False]
  by (simp add: semver_lt_def Semver_def)

text \<open>
  Claim C5, amended. For an alternate host whose major version is in the table, the
  version that is validated is the table's version for that major, combined by minimum
  with the version the underlying runtime reports when that is detectable, and the
  table's version alone when it is not (the runtime does not resolve, or reports no
  version). With the tests' stubs, electron 6.1.2 over node 14.5.0 resolves to 12.0.0,
  electron 5.1.2 over node 14.5.0 to 10.0.0, and electron 9.0.0 over node 10.0.0 to
  10.0.0; over a runtime below the minimum, as node 6.0.0, the minimum of the two is
  that runtime's version and the result is the out-of-date failure.
\<close>

theorem alternate_host_version:
  "(kindOf w exe = AlternateHost \<and> resolveBinaryLocation w exe = Some loc \<and>
    getVersion w loc = Some hv \<and> hostTable w (major hv) = Some mapped \<longrightarrow>
      (resolveBinaryLocation w ''node'' = Some nloc \<and> getVersion w nloc = Some u \<longrightarrow>
         resolveAndValidate w exe None = validate w loc (Some (semver_min mapped u))) \<and>
      (resolveBinaryLocation w ''node'' = None \<or>
       (resolveBinaryLocation w ''node'' = Some nloc \<and> getVersion w nloc = None) \<longrightarrow>
         resolveAndValidate w exe None = validate w loc (Some mapped))) \<and>
   resolveAndValidate (electronMachine (Semver 6 1 2) (Semver 14 5 0)) ''electron'' None =
     Inr (NodeBinary ''/foo/electron'' (Some (Semver 12 0 0))) \<and>
   resolveAndValidate (electronMachine (Semver 5 1 2) (Semver 14 5 0)) ''electron'' None =
     Inr (NodeBinary ''/foo/electron'' (Some (Semver 10 0 0))) \<and>
   resolveAndValidate (electronMachine (Semver 9 0 0) (Semver 10 0 0)) ''electron'' None =
     Inr (NodeBinary ''/foo/electron'' (Some (Semver 10 0 0))) \<and>
   resolveAndValidate (electronMachine (Semver 6 1 2) (Semver 6 0 0)) ''electron'' None =
     Inl (NodeBinaryOutOfDate (Semver 6 0 0) (Semver 8 0 0))"
proof (intro conjI impI)
  assume a: "kindOf w exe = AlternateHost \<and> resolveBinaryLocation w exe = Some loc \<and>
    getVersion w loc = Some hv \<and> hostTable w (major hv) = Some mapped"
  { assume "resolveBinaryLocation w ''node'' = Some nloc \<and> getVersion w nloc = Some u"
    with a show "resolveAndValidate w exe None = validate w loc (Some (semver_min mapped u))"
      by (simp add: resolveAndValidate_def resolveAndValidateWith_def remapHostVersion_def
          underlyingVersion_def) }
  { assume "resolveBinaryLocation w ''node'' = None \<or>
       (resolveBinaryLocation w ''node'' = Some nloc \<and> getVersion w nloc = None)"
    with a show "resolveAndValidate w exe None = validate w loc (Some mapped)"
      by (auto simp: resolveAndValidate_def resolveAndValidateWith_def remapHostVersion_def
          underlyingVersion_def) }
qed (simp_all add: resolveAndValidate_def resolveAndValidateWith_def remapHostVersion_def
      underlyingVersion_def electronMachine_def electronTable_def validate_def NodeBinary_def
      Semver_def semver_lt_def semver_min_def)

theorem alternate_host_version_witness:
  "resolveAndValidate (electronMachine (Semver 6 1 2) (Semver 14 5 0)) ''electron'' None =
     validate (electronMachine (Semver 6 1 2) (Semver 14 5 0)) ''/foo/electron''
       (Some (semver_min (Semver 12 0 0) (Semver 14 5 0))) \<and>
   semver_min (Semver 12 0 0) (Semver 14 5 0) = Semver 12 0 0 \<and>
   resolveAndValidate (electronMachine (Semver 6 1 2) (Semver 6 0 0)) ''electron'' None =
     validate (electronMachine (Semver 6 1 2) (Semver 6 0 0)) ''/foo/electron''
       (Some (semver_min (Semver 12 0 0) (Semver 6 0 0))) \<and>
   semver_min (Semver 12 0 0) (Semver 6 0 0) = Semver 6 0 0 \<and>
   resolveAndValidate
     ((electronMachine (Semver 6 1 2) (Semver 14 5 0))
        \<lparr>resolveBinaryLocation := (\<lambda>e. if e = ''electron'' then Some ''/foo/electron'' else None)\<rparr>)
     ''electron'' None =
     Inr (NodeBinary ''/foo/electron'' (Some (Semver 12 0 0)))"
  using alternate_host_version
    [where w = "electronMachine (Semver 6 1 2) (Semver 14 5 0)" and exe = "''electron''"
       and loc = "''/foo/electron''" and hv = "Semver 6 1 2" and mapped = "Semver 12 0 0"
       and nloc = "''/node''" and u = "Semver 14 5 0"]
    alternate_host_version
    [where w = "electronMachine (Semver 6 1 2) (Semver 6 0 0)" and exe = "''electron''"
       and loc = "''/foo/electron''" and hv = "Semver 6 1 2" and mapped = "Semver 12 0 0"
       and nloc = "''/node''" and u = "Semver 6 0 0"]
    alternate_host_version
    [where w = "(electronMachine (Semver 6 1 2) (Semver 14 5 0))
           \<lparr>resolveBinaryLocation := (\<lambda>e. if e = ''electron'' then Some ''/foo/electron'' else None)\<rparr>"
       and exe = "''electron''" and loc = "''/foo/electron''" and hv = "Semver 6 1 2"
       and mapped = "Semver 12 0 0"]
  by (simp add: electronMachine_def electronTable_def validate_def
      NodeBinary_def Semver_def semver_lt_def semver_min_def)

text \<open>
  Claim C5 as stated, with the maximum: electron 6.1.2 over node 14.5.0 resolves to
  14.5.0, not to the 12.0.0 the claim and the test give.
\<close>

theorem alternate_host_version_counterexample:
  "resolveAndValidate_spec (electronMachine (Semver 6 1 2) (Semver 14 5 0)) ''electron'' None =
     Inr (NodeBinary ''/foo/electron'' (Some (Semver 14 5 0))) \<and>
   Semver 14 5 0 \<noteq> Semver 12 0 0"
  by (simp add: resolveAndValidate_spec_def resolveAndValidateWith_def remapHostVersion_def
      underlyingVersion_def electronMachine_def electronTable_def validate_def NodeBinary_def
      Semver_def semver_lt_def semver_max_def)

text \<open>Whatever the table holds, a maximum with 14.5.0 is not 12.0.0.\<close>

lemma remap_max_not_12:
  "remapHostVersion semver_max table hv (Some (Semver 14 5 0)) \<noteq> Some (Semver 12 0 0)"
  by (auto simp: remapHostVersion_def semver_max_def semver_lt_def Semver_def split: option.splits)

text \<open>
  Claim C6. For a package-manager front-end that resolves to a shim: if the runtime
  cannot be located, the result is the shim's path with no version, which is
  imprecisely known; if the runtime is located and reports a version below the
  minimum, the result is the out-of-date failure with both versions.
\<close>

theorem package_manager_resolution:
  "kindOf w exe = PackageManager \<and> resolveBinaryLocation w exe = Some shim \<longrightarrow>
     (resolveBinaryLocation w ''node'' = None \<longrightarrow>
        resolveAndValidate w exe None = Inr (NodeBinary shim None) \<and>
        \<not> isPreciselyKnown (NodeBinary shim None)) \<and>
     (resolveBinaryLocation w ''node'' = Some n \<and> getVersion w n = Some v \<and>
      semver_lt v (minimumVersion w) \<longrightarrow>
        resolveAndValidate w exe None = Inl (NodeBinaryOutOfDate v (minimumVersion w)))"
  by (simp add: resolveAndValidate_def resolveAndValidateWith_def resolveRuntime_def validate_def
      isPreciselyKnown_def NodeBinary_def)

theorem package_manager_resolution_witness:
  "resolveAndValidate (fixtureMachine None) ''npm'' None = Inr (NodeBinary ''/fixture/npm'' None) \<and>
   resolveAndValidate (fixtureMachine (Some (Semver 6 0 0))) ''npm'' None =
     Inl (NodeBinaryOutOfDate (Semver 6 0 0) (Semver 8 0 0))"
  using package_manager_resolution
      [of "fixtureMachine None" "''npm''" "''/fixture/npm''"]
    package_manager_resolution
      [of "fixtureMachine (Some (Semver 6 0 0))" "''npm''" "''/fixture/npm''" "''/fixture/node''"
          "Semver 6 0 0"]
  by (simp add: fixtureMachine_def Semver_def semver_lt_def)

section \<open>Theorems: the process tree parser\<close>






lemma blank_chars [simp]:
  "\<not> isWordChar (CHR '' '')" "\<not> isDigit (CHR '' '')" "isSpace (CHR '' '')"
  by (simp_all add: isWordChar_def isDigit_def isSpace_def)
















end
